theory Spec2Isabelle
  imports Complex_Main
begin

section \<open>JavaScript values\<close>

text \<open>
  The helper module (\<^verbatim>\<open>sheets.js\<close>) builds request bodies for the Sheets API from
  order objects. Order properties and sheet identifiers are JavaScript primitives that the
  module copies into the requests. A number is modelled by a rational (every finite double
  is one); \<^verbatim>\<open>NaN\<close> and the infinities are not represented.
\<close>

datatype jsval = JUndefined | JNull | JBool bool | JNum rat | JStr string

datatype error =
    TypeError           \<comment> \<open>thrown by the runtime: property read on undefined or null,
                            reduce of an empty array without initial value\<close>
  | ServiceError string \<comment> \<open>the \<^verbatim>\<open>err\<close> a Sheets RPC hands to its callback\<close>

fun nat_digits :: "nat \<Rightarrow> string" where
  "nat_digits n =
     (if n < 10 then [''0123456789'' ! n]
      else nat_digits (n div 10) @ [''0123456789'' ! (n mod 10)])"

declare nat_digits.simps [simp del]

text \<open>
  \<^verbatim>\<open>Number.prototype.toString()\<close>: an integral number of magnitude at most \<open>2^53\<close> is
  a double that prints as its decimal digits. Every other number (a fraction, or an integer
  beyond that range) prints as the shortest decimal that reads back as the same double;
  that conversion belongs to the runtime and is the parameter \<open>shortest\<close>.
\<close>

definition Number_toString :: "(rat \<Rightarrow> string) \<Rightarrow> rat \<Rightarrow> string" where
  "Number_toString shortest q =
     (case quotient_of q of (n, d) \<Rightarrow>
        if d = 1 \<and> \<bar>n\<bar> \<le> 2 ^ 53
        then (if n < 0 then CHR ''-'' # nat_digits (nat (- n)) else nat_digits (nat n))
        else shortest q)"

text \<open>\<^verbatim>\<open>v.toString()\<close> on a primitive: reading the method off undefined or null throws.\<close>

fun toString :: "(rat \<Rightarrow> string) \<Rightarrow> jsval \<Rightarrow> error + string" where
  "toString shortest JUndefined = Inl TypeError"
| "toString shortest JNull = Inl TypeError"
| "toString shortest (JBool b) = Inr (if b then ''true'' else ''false'')"
| "toString shortest (JNum q) = Inr (Number_toString shortest q)"
| "toString shortest (JStr s) = Inr s"

text \<open>
  \<^verbatim>\<open>Array.prototype.map\<close> with a callback that may throw: the first exception ends the
  traversal and is the result.
\<close>

fun map_throwing :: "('a \<Rightarrow> error + 'b) \<Rightarrow> 'a list \<Rightarrow> error + 'b list" where
  "map_throwing f [] = Inr []"
| "map_throwing f (x # xs) =
     (case f x of
        Inl e \<Rightarrow> Inl e
      | Inr y \<Rightarrow> (case map_throwing f xs of Inl e \<Rightarrow> Inl e | Inr ys \<Rightarrow> Inr (y # ys)))"

text \<open>
  \<^verbatim>\<open>util.format(fmt, ...args)\<close> of Node, for the directives the module uses: each
  \<^verbatim>\<open>%s\<close> takes the next string argument, a \<^verbatim>\<open>%s\<close> with no argument left stays as
  it is, and arguments left over are appended after a space each.
\<close>

fun util_format :: "string \<Rightarrow> string list \<Rightarrow> string" where
  "util_format (c # d # fs) (a # as) =
     (if c = CHR ''%'' \<and> d = CHR ''s'' then a @ util_format fs as
      else c # util_format (d # fs) (a # as))"
| "util_format fs [] = fs"
| "util_format fs as = fs @ concat (map (\<lambda>a. CHR '' '' # a) as)"

section \<open>The column specification\<close>

text \<open>
  An entry of \<^verbatim>\<open>COLUMNS\<close>. The property \<^verbatim>\<open>index\<close> is absent in the literal;
  \<^verbatim>\<open>getColumnForField\<close> adds it to the shared objects.
\<close>

record column =
  field :: string
  header :: string
  index :: "nat option"

definition COLUMNS :: "column list" where
  "COLUMNS =
     [\<lparr>field = ''id'', header = ''ID'', index = None\<rparr>,
      \<lparr>field = ''customerName'', header = ''Customer Name'', index = None\<rparr>,
      \<lparr>field = ''productCode'', header = ''Product Code'', index = None\<rparr>,
      \<lparr>field = ''unitsOrdered'', header = ''Units Ordered'', index = None\<rparr>,
      \<lparr>field = ''unitPrice'', header = ''Unit Price'', index = None\<rparr>,
      \<lparr>field = ''status'', header = ''Status'', index = None\<rparr>]"

text \<open>
  The states the shared table can be in: the six entries keep their field and header, only
  the \<^verbatim>\<open>index\<close> annotations vary.
\<close>

definition columns_state :: "column list \<Rightarrow> bool" where
  "columns_state cols \<longleftrightarrow>
     map field cols = map field COLUMNS \<and> map header cols = map header COLUMNS"

section \<open>Request bodies\<close>

datatype extended_value = NumberValue jsval | StringValue jsval

record number_format =
  nf_type :: string
  nf_pattern :: string

datatype cell_format =
    TextFormatBold bool          \<comment> \<open>\<^verbatim>\<open>{textFormat: {bold: b}}\<close>\<close>
  | NumberFormat number_format   \<comment> \<open>\<^verbatim>\<open>{numberFormat: {type, pattern}}\<close>\<close>

record boolean_condition =
  bc_type :: string
  bc_values :: "string list"  \<comment> \<open>each entry \<open>s\<close> is \<^verbatim>\<open>{userEnteredValue: s}\<close>\<close>

record data_validation =
  dv_condition :: boolean_condition
  dv_strict :: bool
  dv_showCustomUi :: bool

record grid_range =
  gr_sheetId :: jsval
  gr_startRowIndex :: nat
  gr_startColumnIndex :: nat
  gr_endColumnIndex :: "nat option"

record pivot_group =
  pg_sourceColumnOffset :: "nat option"
  pg_showTotals :: bool
  pg_sortOrder :: string

record pivot_value =
  pv_summarizeFunction :: string
  pv_sourceColumnOffset :: "nat option"
  pv_name :: "string option"
  pv_formula :: "string option"

record pivot_table =
  pt_source :: grid_range
  pt_rows :: "pivot_group list"
  pt_values :: "pivot_value list"

record cell_data =
  userEnteredValue :: "extended_value option"
  userEnteredFormat :: "cell_format option"
  dataValidation :: "data_validation option"
  pivotTable :: "pivot_table option"

record row_data =
  rd_values :: "cell_data list"

record grid_coordinate =
  gc_sheetId :: jsval
  gc_rowIndex :: nat
  gc_columnIndex :: nat

record update_cells =
  uc_start :: grid_coordinate
  uc_rows :: "row_data list"
  uc_fields :: string

record grid_properties =
  gp_rowCount :: "nat option"
  gp_columnCount :: "nat option"
  gp_frozenRowCount :: "nat option"
  gp_hideGridlines :: "bool option"

record sheet_properties =
  sp_sheetId :: "jsval option"
  sp_title :: "string option"
  sp_gridProperties :: grid_properties

record update_sheet_properties =
  usp_properties :: sheet_properties
  usp_fields :: string

section \<open>The header row\<close>

definition buildHeaderRowRequest :: "column list \<Rightarrow> jsval \<Rightarrow> update_cells" where
  "buildHeaderRowRequest cols sheetId =
     (let cells = map (\<lambda>column.
            \<lparr>userEnteredValue = Some (StringValue (JStr (header column))),
             userEnteredFormat = Some (TextFormatBold True),
             dataValidation = None, pivotTable = None\<rparr>) cols
      in \<lparr>uc_start = \<lparr>gc_sheetId = sheetId, gc_rowIndex = 0, gc_columnIndex = 0\<rparr>,
          uc_rows = [\<lparr>rd_values = cells\<rparr>],
          uc_fields = ''userEnteredValue,userEnteredFormat.textFormat.bold''\<rparr>)"

section \<open>Rows for orders\<close>

text \<open>
  An order is an object: a finite map from property names to values. Reading a property
  that the object does not have gives undefined.
\<close>

type_synonym order = "string \<rightharpoonup> jsval"

definition read_prop :: "order \<Rightarrow> string \<Rightarrow> jsval" where
  "read_prop obj k = (case obj k of None \<Rightarrow> JUndefined | Some v \<Rightarrow> v)"

text \<open>The callback of \<^verbatim>\<open>COLUMNS.map\<close> in \<^verbatim>\<open>buildRowsForOrders\<close>: the switch on the field.\<close>

definition buildCell :: "(rat \<Rightarrow> string) \<Rightarrow> order \<Rightarrow> column \<Rightarrow> error + cell_data" where
  \<open>buildCell shortest order column =
     (if field column = ''unitsOrdered'' then
        Inr \<lparr>userEnteredValue = Some (NumberValue (read_prop order ''unitsOrdered'')),
             userEnteredFormat =
               Some (NumberFormat \<lparr>nf_type = ''NUMBER'', nf_pattern = ''#,##0''\<rparr>),
             dataValidation = None, pivotTable = None\<rparr>
      else if field column = ''unitPrice'' then
        Inr \<lparr>userEnteredValue = Some (NumberValue (read_prop order ''unitPrice'')),
             userEnteredFormat =
               Some (NumberFormat \<lparr>nf_type = ''CURRENCY'', nf_pattern = ''"$"#,##0.00''\<rparr>),
             dataValidation = None, pivotTable = None\<rparr>
      else if field column = ''status'' then
        Inr \<lparr>userEnteredValue = Some (StringValue (read_prop order ''status'')),
             userEnteredFormat = None,
             dataValidation =
               Some \<lparr>dv_condition =
                       \<lparr>bc_type = ''ONE_OF_LIST'',
                        bc_values = [''PENDING'', ''SHIPPED'', ''DELIVERED'']\<rparr>,
                     dv_strict = True, dv_showCustomUi = True\<rparr>,
             pivotTable = None\<rparr>
      else
        (case toString shortest (read_prop order (field column)) of
           Inl e \<Rightarrow> Inl e
         | Inr s \<Rightarrow>
             Inr \<lparr>userEnteredValue = Some (StringValue (JStr s)),
                  userEnteredFormat = None, dataValidation = None, pivotTable = None\<rparr>))\<close>

definition buildRowsForOrders ::
    "(rat \<Rightarrow> string) \<Rightarrow> column list \<Rightarrow> order list \<Rightarrow> error + row_data list" where
  "buildRowsForOrders shortest cols orders =
     map_throwing (\<lambda>order.
        case map_throwing (buildCell shortest order) cols of
          Inl e \<Rightarrow> Inl e
        | Inr cells \<Rightarrow> Inr \<lparr>rd_values = cells\<rparr>) orders"

section \<open>Pivot table, pivot format and chart\<close>

text \<open>
  \<^verbatim>\<open>COLUMNS.reduce(callback)\<close> without an initial value: the accumulator starts as the
  first entry and the callback runs from position 1 on. The accumulator is a reference into
  the table, kept here as a position; a matching entry gets its \<^verbatim>\<open>index\<close> written in place.
  The result is the column as the caller reads it on return, and the table after the call.
\<close>

definition getColumnForField :: "column list \<Rightarrow> string \<Rightarrow> error + column \<times> column list" where
  "getColumnForField cols fld =
     (if cols = [] then Inl TypeError
      else
        (case fold (\<lambda>i (result, cs).
                 if field (cs ! i) = fld
                 then (i, cs[i := (cs ! i)\<lparr>index := Some i\<rparr>])
                 else (result, cs)) [1..<length cols] (0, cols) of
           (result, cols') \<Rightarrow> Inr (cols' ! result, cols')))"

definition buildPivotTableRequest ::
    "column list \<Rightarrow> jsval \<Rightarrow> jsval \<Rightarrow> error + update_cells \<times> column list" where
  "buildPivotTableRequest cols sourceSheetId targetSheetId =
     (case getColumnForField cols ''productCode'' of Inl e \<Rightarrow> Inl e | Inr (c1, cols1) \<Rightarrow>
      case getColumnForField cols1 ''unitsOrdered'' of Inl e \<Rightarrow> Inl e | Inr (c2, cols2) \<Rightarrow>
      case getColumnForField cols2 ''unitsOrdered'' of Inl e \<Rightarrow> Inl e | Inr (c3, cols3) \<Rightarrow>
      case getColumnForField cols3 ''unitPrice'' of Inl e \<Rightarrow> Inl e | Inr (c4, cols4) \<Rightarrow>
        Inr (\<lparr>uc_start = \<lparr>gc_sheetId = targetSheetId, gc_rowIndex = 0, gc_columnIndex = 0\<rparr>,
              uc_rows =
                [\<lparr>rd_values =
                   [\<lparr>userEnteredValue = None, userEnteredFormat = None, dataValidation = None,
                     pivotTable = Some
                       \<lparr>pt_source =
                          \<lparr>gr_sheetId = sourceSheetId, gr_startRowIndex = 0,
                           gr_startColumnIndex = 0, gr_endColumnIndex = Some (length cols)\<rparr>,
                        pt_rows =
                          [\<lparr>pg_sourceColumnOffset = index c1, pg_showTotals = False,
                            pg_sortOrder = ''ASCENDING''\<rparr>],
                        pt_values =
                          [\<lparr>pv_summarizeFunction = ''SUM'', pv_sourceColumnOffset = index c2,
                            pv_name = None, pv_formula = None\<rparr>,
                           \<lparr>pv_summarizeFunction = ''SUM'', pv_sourceColumnOffset = None,
                            pv_name = Some ''Revenue'',
                            pv_formula = Some (util_format (''='%s' * '%s'' @ [CHR 0x27])
                                                 [header c3, header c4])\<rparr>]\<rparr>\<rparr>]\<rparr>],
              uc_fields = ''*''\<rparr>, cols4))"

record repeat_cell =
  rc_range :: grid_range
  rc_cell :: cell_data
  rc_fields :: string

definition buildFormatPivotTableRequest :: "jsval \<Rightarrow> repeat_cell" where
  \<open>buildFormatPivotTableRequest sheetId =
     \<lparr>rc_range = \<lparr>gr_sheetId = sheetId, gr_startRowIndex = 1, gr_startColumnIndex = 2,
                  gr_endColumnIndex = None\<rparr>,
      rc_cell = \<lparr>userEnteredValue = None,
                 userEnteredFormat =
                   Some (NumberFormat \<lparr>nf_type = ''CURRENCY'', nf_pattern = ''"$"#,##0.00''\<rparr>),
                 dataValidation = None, pivotTable = None\<rparr>,
      rc_fields = ''userEnteredFormat.numberFormat''\<rparr>\<close>

record chart_data =
  cd_sources :: "grid_range list"  \<comment> \<open>\<^verbatim>\<open>{sourceRange: {sources: [...]}}\<close>\<close>

record basic_chart =
  ch_chartType :: string
  ch_legendPosition :: string
  ch_domains :: "chart_data list"  \<comment> \<open>each entry \<open>d\<close> is \<^verbatim>\<open>{domain: d}\<close>\<close>
  ch_series :: "chart_data list"   \<comment> \<open>each entry \<open>s\<close> is \<^verbatim>\<open>{series: s}\<close>\<close>

record chart_spec =
  cs_title :: string
  cs_basicChart :: basic_chart

record overlay_position =
  op_anchorCell :: grid_coordinate
  op_widthPixels :: nat
  op_heightPixels :: nat

record embedded_chart =
  ec_spec :: chart_spec
  ec_position :: overlay_position

definition buildAddChartRequest :: "jsval \<Rightarrow> embedded_chart" where
  "buildAddChartRequest sheetId =
     \<lparr>ec_spec =
        \<lparr>cs_title = ''Revenue per Product'',
         cs_basicChart =
           \<lparr>ch_chartType = ''BAR'', ch_legendPosition = ''RIGHT_LEGEND'',
            ch_domains =
              [\<lparr>cd_sources = [\<lparr>gr_sheetId = sheetId, gr_startRowIndex = 0,
                               gr_startColumnIndex = 0, gr_endColumnIndex = Some 1\<rparr>]\<rparr>],
            ch_series =
              [\<lparr>cd_sources = [\<lparr>gr_sheetId = sheetId, gr_startRowIndex = 0,
                               gr_startColumnIndex = 2, gr_endColumnIndex = Some 3\<rparr>]\<rparr>]\<rparr>\<rparr>,
      ec_position =
        \<lparr>op_anchorCell = \<lparr>gc_sheetId = sheetId, gc_rowIndex = 0, gc_columnIndex = 3\<rparr>,
         op_widthPixels = 600, op_heightPixels = 400\<rparr>\<rparr>"

section \<open>The two operations and the Sheets service\<close>

datatype request =
    UpdateSheetProperties update_sheet_properties
  | UpdateCells update_cells
  | RepeatCell repeat_cell
  | AddChart embedded_chart

record batch_update_request =
  bu_spreadsheetId :: jsval
  bu_requests :: "request list"  \<comment> \<open>\<^verbatim>\<open>resource.requests\<close>\<close>

record create_request =
  cr_title :: string                     \<comment> \<open>\<^verbatim>\<open>resource.properties.title\<close>\<close>
  cr_sheets :: "sheet_properties list"   \<comment> \<open>each entry \<open>p\<close> is \<^verbatim>\<open>{properties: p}\<close>\<close>

text \<open>The spreadsheet in the response of \<^verbatim>\<open>spreadsheets.create\<close>, as far as it is read.\<close>

record spreadsheet =
  ss_spreadsheetId :: jsval
  ss_sheets :: "sheet_properties list"

definition sheetId_of :: "sheet_properties \<Rightarrow> jsval" where
  "sheetId_of p = (case sp_sheetId p of None \<Rightarrow> JUndefined | Some v \<Rightarrow> v)"

text \<open>
  The service is opaque: each RPC answers its callback with an error or a result. An
  operation returns the calls it issued, in order, and how it ended: an exception, or the
  arguments it gave to its own callback.
\<close>

record service =
  create_rpc :: "create_request \<Rightarrow> error + spreadsheet"
  batchUpdate_rpc :: "batch_update_request \<Rightarrow> error option"

datatype rpc_call = Create create_request | BatchUpdate batch_update_request

datatype 'a outcome = Thrown error | Callback "error option" "'a option"

definition sync ::
    "(rat \<Rightarrow> string) \<Rightarrow> service \<Rightarrow> column list \<Rightarrow> jsval \<Rightarrow> jsval \<Rightarrow> order list
       \<Rightarrow> rpc_call list \<times> unit outcome" where
  "sync shortest svc cols spreadsheetId sheetId orders =
     (let resize = UpdateSheetProperties
            \<lparr>usp_properties =
               \<lparr>sp_sheetId = Some sheetId, sp_title = None,
                sp_gridProperties =
                  \<lparr>gp_rowCount = Some (length orders + 1),
                   gp_columnCount = Some (length cols),
                   gp_frozenRowCount = None, gp_hideGridlines = None\<rparr>\<rparr>,
             usp_fields = ''gridProperties(rowCount,columnCount)''\<rparr>
      in case buildRowsForOrders shortest cols orders of
           Inl e \<Rightarrow> ([], Thrown e)
         | Inr rows \<Rightarrow>
             let cells = UpdateCells
                   \<lparr>uc_start = \<lparr>gc_sheetId = sheetId, gc_rowIndex = 1, gc_columnIndex = 0\<rparr>,
                    uc_rows = rows, uc_fields = ''*''\<rparr>;
                 request = \<lparr>bu_spreadsheetId = spreadsheetId, bu_requests = [resize, cells]\<rparr>
             in ([BatchUpdate request],
                 case batchUpdate_rpc svc request of
                   Some err \<Rightarrow> Callback (Some err) None
                 | None \<Rightarrow> Callback None None))"

definition createSpreadsheet ::
    "service \<Rightarrow> column list \<Rightarrow> string
       \<Rightarrow> rpc_call list \<times> spreadsheet outcome \<times> column list" where
  "createSpreadsheet svc cols title =
     (let request =
            \<lparr>cr_title = title,
             cr_sheets =
               [\<lparr>sp_sheetId = None, sp_title = Some ''Data'',
                 sp_gridProperties =
                   \<lparr>gp_rowCount = None, gp_columnCount = Some 6,
                    gp_frozenRowCount = Some 1, gp_hideGridlines = None\<rparr>\<rparr>,
                \<lparr>sp_sheetId = None, sp_title = Some ''Pivot'',
                 sp_gridProperties =
                   \<lparr>gp_rowCount = None, gp_columnCount = None,
                    gp_frozenRowCount = None, gp_hideGridlines = Some True\<rparr>\<rparr>]\<rparr>
      in case create_rpc svc request of
           Inl err \<Rightarrow> ([Create request], Callback (Some err) None, cols)
         | Inr spreadsheet \<Rightarrow>
             (case ss_sheets spreadsheet of
                s0 # s1 # _ \<Rightarrow>
                  let dataSheetId = sheetId_of s0;
                      headerRow = buildHeaderRowRequest cols dataSheetId;
                      pivotSheetId = sheetId_of s1
                  in (case buildPivotTableRequest cols dataSheetId pivotSheetId of
                        Inl e \<Rightarrow> ([Create request], Thrown e, cols)
                      | Inr (pivot, cols') \<Rightarrow>
                          let request2 =
                                \<lparr>bu_spreadsheetId = ss_spreadsheetId spreadsheet,
                                 bu_requests =
                                   [UpdateCells headerRow, UpdateCells pivot,
                                    RepeatCell (buildFormatPivotTableRequest pivotSheetId),
                                    AddChart (buildAddChartRequest pivotSheetId)]\<rparr>
                          in ([Create request, BatchUpdate request2],
                              (case batchUpdate_rpc svc request2 of
                                 Some err \<Rightarrow> Callback (Some err) None
                               | None \<Rightarrow> Callback None (Some spreadsheet)),
                              cols'))
              | _ \<Rightarrow> ([Create request], Thrown TypeError, cols)))"

section \<open>Inputs for the statements\<close>

text \<open>The order of the specification's example, a service that answers every call with an
  error, and a number conversion for inputs that have no fractional number to print.\<close>

definition example_order :: order where
  "example_order =
     [''id'' \<mapsto> JNum 1, ''customerName'' \<mapsto> JStr ''A'', ''productCode'' \<mapsto> JStr ''X1'',
      ''unitsOrdered'' \<mapsto> JNum 3, ''unitPrice'' \<mapsto> JNum 9.5, ''status'' \<mapsto> JStr ''PENDING'']"

definition offline_service :: service where
  "offline_service =
     \<lparr>create_rpc = (\<lambda>request. Inl (ServiceError ''offline'')),
      batchUpdate_rpc = (\<lambda>request. Some (ServiceError ''offline''))\<rparr>"

definition no_fractions :: "rat \<Rightarrow> string" where
  "no_fractions q = []"

text \<open>A response with the two sheets the create request asks for, and a service that
  answers every call with success.\<close>

definition sample_spreadsheet :: spreadsheet where
  "sample_spreadsheet =
     \<lparr>ss_spreadsheetId = JStr ''abc'',
      ss_sheets =
        [\<lparr>sp_sheetId = Some (JNum 0), sp_title = Some ''Data'',
          sp_gridProperties =
            \<lparr>gp_rowCount = Some 1000, gp_columnCount = Some 6,
             gp_frozenRowCount = Some 1, gp_hideGridlines = None\<rparr>\<rparr>,
         \<lparr>sp_sheetId = Some (JNum 1), sp_title = Some ''Pivot'',
          sp_gridProperties =
            \<lparr>gp_rowCount = Some 1000, gp_columnCount = Some 26,
             gp_frozenRowCount = None, gp_hideGridlines = Some True\<rparr>\<rparr>]\<rparr>"

definition accepting_service :: service where
  "accepting_service =
     \<lparr>create_rpc = (\<lambda>request. Inr sample_spreadsheet),
      batchUpdate_rpc = (\<lambda>request. None)\<rparr>"

text \<open>A value whose \<^verbatim>\<open>toString\<close> method can be read: anything but undefined and null.\<close>

definition stringifiable :: "jsval \<Rightarrow> bool" where
  "stringifiable v \<longleftrightarrow> v \<noteq> JUndefined \<and> v \<noteq> JNull"

section \<open>Facts about the runtime helpers and the column table\<close>

lemma columns_state_length: "columns_state cols \<Longrightarrow> length cols = 6"
  unfolding columns_state_def using map_eq_imp_length_eq[of field cols field COLUMNS]
  by (simp add: COLUMNS_def)

lemma columns_state_fields:
  "columns_state cols \<Longrightarrow>
   map field cols = [''id'', ''customerName'', ''productCode'', ''unitsOrdered'', ''unitPrice'', ''status'']"
  by (simp add: columns_state_def COLUMNS_def)

lemma columns_state_headers:
  "columns_state cols \<Longrightarrow>
   map header cols = [''ID'', ''Customer Name'', ''Product Code'', ''Units Ordered'', ''Unit Price'', ''Status'']"
  by (simp add: columns_state_def COLUMNS_def)

lemma columns_state_COLUMNS: "columns_state COLUMNS"
  by (simp add: columns_state_def)

lemma map_throwing_Inr_iff: "map_throwing f xs = Inr ys \<longleftrightarrow> map f xs = map Inr ys"
proof (induction xs arbitrary: ys)
  case Nil
  then show ?case by auto
next
  case (Cons x xs)
  show ?case
  proof (cases "f x")
    case (Inl e)
    then show ?thesis by (cases ys) auto
  next
    case fx: (Inr y)
    show ?thesis
    proof (cases "map_throwing f xs")
      case (Inl e)
      then have "\<And>zs. map f xs \<noteq> map Inr zs" using Cons.IH by simp
      with Inl fx show ?thesis by (cases ys) auto
    next
      case (Inr zs)
      then have "map f xs = map Inr zs" using Cons.IH by simp
      with Inr fx show ?thesis by (cases ys) (auto simp: inj_map_eq_map[OF inj_Inr])
    qed
  qed
qed

lemma map_throwing_Inl: "map_throwing f xs = Inl e \<Longrightarrow> \<exists>x \<in> set xs. f x = Inl e"
  by (induction xs) (auto split: sum.splits)

lemma map_throwing_fails: "x \<in> set xs \<Longrightarrow> f x = Inl e \<Longrightarrow> \<exists>e'. map_throwing f xs = Inl e'"
  by (induction xs) (auto split: sum.splits)

lemma map_throwing_succeeds:
  "(\<And>x. x \<in> set xs \<Longrightarrow> \<exists>y. f x = Inr y) \<Longrightarrow> \<exists>ys. map_throwing f xs = Inr ys"
proof (induction xs)
  case Nil
  then show ?case by simp
next
  case (Cons x xs)
  then obtain y where "f x = Inr y" by auto
  moreover from Cons obtain ys where "map_throwing f xs = Inr ys" by auto
  ultimately show ?case by simp
qed

lemma buildCell_field: "field c = field c' \<Longrightarrow> buildCell shortest ord c = buildCell shortest ord c'"
  by (simp add: buildCell_def)

lemma map_buildCell_fields:
  "map field cs = map field cs' \<Longrightarrow> map (buildCell shortest ord) cs = map (buildCell shortest ord) cs'"
proof (induction cs arbitrary: cs')
  case Nil
  then show ?case by simp
next
  case (Cons c cs)
  then obtain d ds where "cs' = d # ds" by (cases cs') auto
  with Cons show ?case using buildCell_field[of c d] by auto
qed

section \<open>The header row request\<close>

lemma buildHeaderRowRequest_state:
  "columns_state cols \<Longrightarrow> buildHeaderRowRequest cols sheetId = buildHeaderRowRequest COLUMNS sheetId"
proof -
  assume "columns_state cols"
  then have "map header cols = map header COLUMNS" by (simp add: columns_state_def)
  then have "map ((\<lambda>h. \<lparr>userEnteredValue = Some (StringValue (JStr h)),
             userEnteredFormat = Some (TextFormatBold True),
             dataValidation = None, pivotTable = None\<rparr>) \<circ> header) cols = 
         map ((\<lambda>h. \<lparr>userEnteredValue = Some (StringValue (JStr h)),
             userEnteredFormat = Some (TextFormatBold True),
             dataValidation = None, pivotTable = None\<rparr>) \<circ> header) COLUMNS"
    unfolding map_map[symmetric] by simp
  then show ?thesis by (simp add: buildHeaderRowRequest_def comp_def)
qed

text \<open>
  Claim C6. In every state of the column table, the header-row request writes at row 0,
  column 0 of the given sheet one row of six cells, each a bold string, whose values are in
  this order: ID, Customer Name, Product Code, Units Ordered, Unit Price, Status.
\<close>

theorem header_row_request:
  assumes "columns_state cols"
  shows "buildHeaderRowRequest cols sheetId =
     \<lparr>uc_start = \<lparr>gc_sheetId = sheetId, gc_rowIndex = 0, gc_columnIndex = 0\<rparr>,
      uc_rows =
        [\<lparr>rd_values =
           map (\<lambda>h. \<lparr>userEnteredValue = Some (StringValue (JStr h)),
                     userEnteredFormat = Some (TextFormatBold True),
                     dataValidation = None, pivotTable = None\<rparr>)
             [''ID'', ''Customer Name'', ''Product Code'', ''Units Ordered'', ''Unit Price'',
              ''Status'']\<rparr>],
      uc_fields = ''userEnteredValue,userEnteredFormat.textFormat.bold''\<rparr>"
  unfolding buildHeaderRowRequest_state[OF assms]
  by (simp add: buildHeaderRowRequest_def COLUMNS_def)

theorem header_row_request_witness:
  "columns_state COLUMNS \<and> buildHeaderRowRequest COLUMNS (JNum 0) =
     \<lparr>uc_start = \<lparr>gc_sheetId = JNum 0, gc_rowIndex = 0, gc_columnIndex = 0\<rparr>,
      uc_rows =
        [\<lparr>rd_values =
           map (\<lambda>h. \<lparr>userEnteredValue = Some (StringValue (JStr h)),
                     userEnteredFormat = Some (TextFormatBold True),
                     dataValidation = None, pivotTable = None\<rparr>)
             [''ID'', ''Customer Name'', ''Product Code'', ''Units Ordered'', ''Unit Price'',
              ''Status'']\<rparr>],
      uc_fields = ''userEnteredValue,userEnteredFormat.textFormat.bold''\<rparr>"
  using header_row_request[OF columns_state_COLUMNS, of "JNum 0"] columns_state_COLUMNS by simp

section \<open>The sync request\<close>

lemma toString_stringifiable: "stringifiable v \<Longrightarrow> \<exists>s. toString shortest v = Inr s"
  by (cases v) (simp_all add: stringifiable_def)

lemma toString_error: "toString shortest v = Inl e \<Longrightarrow> e = TypeError \<and> \<not> stringifiable v"
  by (cases v) (simp_all add: stringifiable_def)

lemma row_cells_state:
  "columns_state cols \<Longrightarrow> map (buildCell shortest ord) cols = map (buildCell shortest ord) COLUMNS"
  by (rule map_buildCell_fields) (simp add: columns_state_def)

lemma buildRowsForOrders_Inr:
  assumes "buildRowsForOrders shortest cols orders = Inr rows"
  shows "length rows = length orders"
    and "i < length orders \<Longrightarrow>
         map Inr (rd_values (rows ! i)) = map (buildCell shortest (orders ! i)) cols"
proof -
  let ?rowf = "\<lambda>order. case map_throwing (buildCell shortest order) cols of
          Inl e \<Rightarrow> Inl e
        | Inr cells \<Rightarrow> Inr \<lparr>rd_values = cells\<rparr>"
  from assms have m: "map ?rowf orders = map Inr rows"
    by (simp add: buildRowsForOrders_def map_throwing_Inr_iff)
  then show len: "length rows = length orders"
    using map_eq_imp_length_eq by fastforce
  assume i: "i < length orders"
  from m have "map ?rowf orders ! i = map Inr rows ! i" by simp
  with i len have "?rowf (orders ! i) = Inr (rows ! i)" by simp
  then have "\<exists>cells. map_throwing (buildCell shortest (orders ! i)) cols = Inr cells \<and>
      rows ! i = \<lparr>rd_values = cells\<rparr>"
    by (auto split: sum.splits)
  then obtain cells where "map_throwing (buildCell shortest (orders ! i)) cols = Inr cells"
    and "rows ! i = \<lparr>rd_values = cells\<rparr>" by blast
  then have "map_throwing (buildCell shortest (orders ! i)) cols = Inr (rd_values (rows ! i))"
    by simp
  then show "map Inr (rd_values (rows ! i)) = map (buildCell shortest (orders ! i)) cols"
    by (simp add: map_throwing_Inr_iff)
qed

lemma row_succeeds:
  assumes "columns_state cols"
    and "stringifiable (read_prop ord ''id'')"
    and "stringifiable (read_prop ord ''customerName'')"
    and "stringifiable (read_prop ord ''productCode'')"
  shows "\<exists>cells. map_throwing (buildCell shortest ord) cols = Inr cells"
proof (rule map_throwing_succeeds)
  fix c assume "c \<in> set cols"
  then have "field c \<in> set (map field cols)" by simp
  then have f: "field c \<in> {''id'', ''customerName'', ''productCode'', ''unitsOrdered'',
      ''unitPrice'', ''status''}"
    by (simp add: columns_state_fields[OF assms(1)])
  from assms(2-4) obtain s1 s2 s3 where
    "toString shortest (read_prop ord ''id'') = Inr s1"
    "toString shortest (read_prop ord ''customerName'') = Inr s2"
    "toString shortest (read_prop ord ''productCode'') = Inr s3"
    using toString_stringifiable by metis
  with f show "\<exists>y. buildCell shortest ord c = Inr y"
    by (auto simp add: buildCell_def)
qed

lemma rows_succeed:
  assumes "columns_state cols"
    and "\<forall>ord \<in> set orders. stringifiable (read_prop ord ''id'') \<and>
           stringifiable (read_prop ord ''customerName'') \<and>
           stringifiable (read_prop ord ''productCode'')"
  shows "\<exists>rows. buildRowsForOrders shortest cols orders = Inr rows"
  unfolding buildRowsForOrders_def
proof (rule map_throwing_succeeds)
  fix ord assume "ord \<in> set orders"
  with assms obtain cells where "map_throwing (buildCell shortest ord) cols = Inr cells"
    using row_succeeds by blast
  then show "\<exists>y. (case map_throwing (buildCell shortest ord) cols of
          Inl e \<Rightarrow> Inl e | Inr cells \<Rightarrow> Inr \<lparr>rd_values = cells\<rparr>) = Inr y"
    by simp
qed

lemma sync_calls:
  "fst (sync shortest svc cols spreadsheetId sheetId orders) =
     (case buildRowsForOrders shortest cols orders of
        Inl e \<Rightarrow> []
      | Inr rows \<Rightarrow>
          [BatchUpdate
             \<lparr>bu_spreadsheetId = spreadsheetId,
              bu_requests =
                [UpdateSheetProperties
                   \<lparr>usp_properties =
                      \<lparr>sp_sheetId = Some sheetId, sp_title = None,
                       sp_gridProperties =
                         \<lparr>gp_rowCount = Some (length orders + 1),
                          gp_columnCount = Some (length cols),
                          gp_frozenRowCount = None, gp_hideGridlines = None\<rparr>\<rparr>,
                    usp_fields = ''gridProperties(rowCount,columnCount)''\<rparr>,
                 UpdateCells
                   \<lparr>uc_start = \<lparr>gc_sheetId = sheetId, gc_rowIndex = 1, gc_columnIndex = 0\<rparr>,
                    uc_rows = rows, uc_fields = ''*''\<rparr>]\<rparr>])"
  by (simp add: sync_def Let_def split: sum.splits)

lemma row_cell_nth:
  assumes "columns_state cols"
    and "buildRowsForOrders shortest cols orders = Inr rows"
    and "i < length orders" and "j < 6"
  shows "length (rd_values (rows ! i)) = 6"
    and "Inr (rd_values (rows ! i) ! j) = buildCell shortest (orders ! i) (COLUMNS ! j)"
proof -
  have m: "map Inr (rd_values (rows ! i)) = map (buildCell shortest (orders ! i)) COLUMNS"
    using buildRowsForOrders_Inr(2)[OF assms(2,3)] row_cells_state[OF assms(1)] by simp
  have "length (map Inr (rd_values (rows ! i)) :: (error + cell_data) list) =
        length (map (buildCell shortest (orders ! i)) COLUMNS)"
    using m by simp
  then show len: "length (rd_values (rows ! i)) = 6" by (simp add: COLUMNS_def)
  have "length COLUMNS = 6" by (simp add: COLUMNS_def)
  with m len assms(4) show "Inr (rd_values (rows ! i) ! j) = buildCell shortest (orders ! i) (COLUMNS ! j)"
    by (metis nth_map)
qed

lemma row_cells_explicit:
  assumes "columns_state cols"
    and "buildRowsForOrders shortest cols orders = Inr rows"
    and "i < length orders"
  shows \<open>\<exists>s1 s2 s3.
     toString shortest (read_prop (orders ! i) ''id'') = Inr s1 \<and>
     toString shortest (read_prop (orders ! i) ''customerName'') = Inr s2 \<and>
     toString shortest (read_prop (orders ! i) ''productCode'') = Inr s3 \<and>
     rd_values (rows ! i) =
       [\<lparr>userEnteredValue = Some (StringValue (JStr s1)),
         userEnteredFormat = None, dataValidation = None, pivotTable = None\<rparr>,
        \<lparr>userEnteredValue = Some (StringValue (JStr s2)),
         userEnteredFormat = None, dataValidation = None, pivotTable = None\<rparr>,
        \<lparr>userEnteredValue = Some (StringValue (JStr s3)),
         userEnteredFormat = None, dataValidation = None, pivotTable = None\<rparr>,
        \<lparr>userEnteredValue = Some (NumberValue (read_prop (orders ! i) ''unitsOrdered'')),
         userEnteredFormat =
           Some (NumberFormat \<lparr>nf_type = ''NUMBER'', nf_pattern = ''#,##0''\<rparr>),
         dataValidation = None, pivotTable = None\<rparr>,
        \<lparr>userEnteredValue = Some (NumberValue (read_prop (orders ! i) ''unitPrice'')),
         userEnteredFormat =
           Some (NumberFormat \<lparr>nf_type = ''CURRENCY'', nf_pattern = ''"$"#,##0.00''\<rparr>),
         dataValidation = None, pivotTable = None\<rparr>,
        \<lparr>userEnteredValue = Some (StringValue (read_prop (orders ! i) ''status'')),
         userEnteredFormat = None,
         dataValidation =
           Some \<lparr>dv_condition =
                   \<lparr>bc_type = ''ONE_OF_LIST'',
                    bc_values = [''PENDING'', ''SHIPPED'', ''DELIVERED'']\<rparr>,
                 dv_strict = True, dv_showCustomUi = True\<rparr>,
         pivotTable = None\<rparr>]\<close>
proof -
  have m: "map Inr (rd_values (rows ! i)) = map (buildCell shortest (orders ! i)) COLUMNS"
    using buildRowsForOrders_Inr(2)[OF assms(2,3)] row_cells_state[OF assms(1)] by simp
  have "length (rd_values (rows ! i)) = 6"
    by (rule row_cell_nth(1)[OF assms, of 0]) simp
  then obtain x0 x1 x2 x3 x4 x5 where
    x: "rd_values (rows ! i) = [x0, x1, x2, x3, x4, x5]"
    by (auto simp add: eval_nat_numeral length_Suc_conv) 
  from m show ?thesis
    unfolding x
    by (auto simp add: COLUMNS_def buildCell_def split: sum.splits)
qed

lemma COLUMNS_nth_field:
  "field (COLUMNS ! 0) = ''id''" "field (COLUMNS ! 1) = ''customerName''"
  "field (COLUMNS ! 2) = ''productCode''" "field (COLUMNS ! 3) = ''unitsOrdered''"
  "field (COLUMNS ! 4) = ''unitPrice''" "field (COLUMNS ! 5) = ''status''"
  by (simp_all add: COLUMNS_def)

lemma buildCell_unitsOrdered:
  "field c = ''unitsOrdered'' \<Longrightarrow> buildCell shortest ord c =
     Inr \<lparr>userEnteredValue = Some (NumberValue (read_prop ord ''unitsOrdered'')),
          userEnteredFormat = Some (NumberFormat \<lparr>nf_type = ''NUMBER'', nf_pattern = ''#,##0''\<rparr>),
          dataValidation = None, pivotTable = None\<rparr>"
  by (simp add: buildCell_def)

lemma buildCell_unitPrice:
  \<open>field c = ''unitPrice'' \<Longrightarrow> buildCell shortest ord c =
     Inr \<lparr>userEnteredValue = Some (NumberValue (read_prop ord ''unitPrice'')),
          userEnteredFormat =
            Some (NumberFormat \<lparr>nf_type = ''CURRENCY'', nf_pattern = ''"$"#,##0.00''\<rparr>),
          dataValidation = None, pivotTable = None\<rparr>\<close>
  by (simp add: buildCell_def)

lemma buildCell_status:
  "field c = ''status'' \<Longrightarrow> buildCell shortest ord c =
     Inr \<lparr>userEnteredValue = Some (StringValue (read_prop ord ''status'')),
          userEnteredFormat = None,
          dataValidation =
            Some \<lparr>dv_condition =
                    \<lparr>bc_type = ''ONE_OF_LIST'',
                     bc_values = [''PENDING'', ''SHIPPED'', ''DELIVERED'']\<rparr>,
                  dv_strict = True, dv_showCustomUi = True\<rparr>,
          pivotTable = None\<rparr>"
  by (simp add: buildCell_def)

lemma buildCell_default:
  "field c \<noteq> ''unitsOrdered'' \<Longrightarrow> field c \<noteq> ''unitPrice'' \<Longrightarrow> field c \<noteq> ''status'' \<Longrightarrow>
   buildCell shortest ord c =
     (case toString shortest (read_prop ord (field c)) of
        Inl e \<Rightarrow> Inl e
      | Inr s \<Rightarrow> Inr \<lparr>userEnteredValue = Some (StringValue (JStr s)),
                      userEnteredFormat = None, dataValidation = None, pivotTable = None\<rparr>)"
  by (simp add: buildCell_def)

lemma buildCell_error:
  assumes "buildCell shortest ord c = Inl e"
  shows "e = TypeError"
proof (cases "field c = ''unitsOrdered'' \<or> field c = ''unitPrice'' \<or> field c = ''status''")
  case True
  with assms show ?thesis
    using buildCell_unitsOrdered[of c shortest ord] buildCell_unitPrice[of c shortest ord]
      buildCell_status[of c shortest ord]
    by auto
next
  case False
  with assms have "toString shortest (read_prop ord (field c)) = Inl e"
    by (simp add: buildCell_default split: sum.splits)
  then show ?thesis by (simp add: toString_error)
qed

lemma buildRowsForOrders_error:
  assumes "buildRowsForOrders shortest cols orders = Inl e"
  shows "e = TypeError"
proof -
  let ?rowf = "\<lambda>order. case map_throwing (buildCell shortest order) cols of
          Inl e \<Rightarrow> Inl e
        | Inr cells \<Rightarrow> Inr \<lparr>rd_values = cells\<rparr>"
  from assms have "map_throwing ?rowf orders = Inl e"
    by (simp add: buildRowsForOrders_def)
  from map_throwing_Inl[OF this] obtain ord where "?rowf ord = Inl e" by blast
  then have "map_throwing (buildCell shortest ord) cols = Inl e"
    by (simp split: sum.splits)
  from map_throwing_Inl[OF this] obtain c where "buildCell shortest ord c = Inl e" by blast
  then show ?thesis by (rule buildCell_error)
qed

lemma missing_prop: "ord k = None \<Longrightarrow> read_prop ord k = JUndefined"
  by (simp add: read_prop_def)

lemma row_fails:
  assumes "columns_state cols"
    and "k = ''id'' \<or> k = ''customerName'' \<or> k = ''productCode''"
    and "\<not> stringifiable (read_prop ord k)"
  shows "\<exists>e. map_throwing (buildCell shortest ord) cols = Inl e"
proof -
  from assms(2) have "k \<in> set (map field cols)"
    by (auto simp add: columns_state_fields[OF assms(1)])
  then obtain c where c: "c \<in> set cols" "field c = k" by auto
  from assms(3) have "toString shortest (read_prop ord k) = Inl TypeError"
    by (cases "read_prop ord k") (simp_all add: stringifiable_def)
  with c assms(2) have "buildCell shortest ord c = Inl TypeError"
    by (auto simp add: buildCell_def)
  with c(1) show ?thesis by (rule map_throwing_fails)
qed

lemma rows_fail:
  assumes "columns_state cols"
    and "ord \<in> set orders"
    and "k = ''id'' \<or> k = ''customerName'' \<or> k = ''productCode''"
    and "\<not> stringifiable (read_prop ord k)"
  shows "buildRowsForOrders shortest cols orders = Inl TypeError"
proof -
  let ?rowf = "\<lambda>order. case map_throwing (buildCell shortest order) cols of
          Inl e \<Rightarrow> Inl e
        | Inr cells \<Rightarrow> Inr \<lparr>rd_values = cells\<rparr>"
  from row_fails[OF assms(1,3,4)] obtain e where
    "map_throwing (buildCell shortest ord) cols = Inl e" by blast
  then have "?rowf ord = Inl e"
    by simp
  from map_throwing_fails[of ord orders ?rowf e, OF assms(2) this] obtain e' where
    e': "buildRowsForOrders shortest cols orders = Inl e'"
    unfolding buildRowsForOrders_def by blast
  from buildRowsForOrders_error[OF e'] e' show ?thesis by simp
qed

lemma example_order_props:
  "read_prop example_order ''id'' = JNum 1"
  "read_prop example_order ''customerName'' = JStr ''A''"
  "read_prop example_order ''productCode'' = JStr ''X1''"
  "read_prop example_order ''unitsOrdered'' = JNum 3"
  "read_prop example_order ''unitPrice'' = JNum 9.5"
  "read_prop example_order ''status'' = JStr ''PENDING''"
  by (simp_all add: read_prop_def example_order_def)

lemma Number_toString_1: "Number_toString shortest 1 = ''1''"
  by (simp add: Number_toString_def nat_digits.simps)

lemma example_cells:
  \<open>map_throwing (buildCell shortest example_order) COLUMNS =
     Inr [\<lparr>userEnteredValue = Some (StringValue (JStr ''1'')),
            userEnteredFormat = None, dataValidation = None, pivotTable = None\<rparr>,
          \<lparr>userEnteredValue = Some (StringValue (JStr ''A'')),
            userEnteredFormat = None, dataValidation = None, pivotTable = None\<rparr>,
          \<lparr>userEnteredValue = Some (StringValue (JStr ''X1'')),
            userEnteredFormat = None, dataValidation = None, pivotTable = None\<rparr>,
          \<lparr>userEnteredValue = Some (NumberValue (JNum 3)),
            userEnteredFormat =
              Some (NumberFormat \<lparr>nf_type = ''NUMBER'', nf_pattern = ''#,##0''\<rparr>),
            dataValidation = None, pivotTable = None\<rparr>,
          \<lparr>userEnteredValue = Some (NumberValue (JNum 9.5)),
            userEnteredFormat =
              Some (NumberFormat \<lparr>nf_type = ''CURRENCY'', nf_pattern = ''"$"#,##0.00''\<rparr>),
            dataValidation = None, pivotTable = None\<rparr>,
          \<lparr>userEnteredValue = Some (StringValue (JStr ''PENDING'')),
            userEnteredFormat = None,
            dataValidation =
              Some \<lparr>dv_condition =
                      \<lparr>bc_type = ''ONE_OF_LIST'',
                       bc_values = [''PENDING'', ''SHIPPED'', ''DELIVERED'']\<rparr>,
                    dv_strict = True, dv_showCustomUi = True\<rparr>,
            pivotTable = None\<rparr>]\<close>
  by (simp add: COLUMNS_def buildCell_def example_order_props Number_toString_1)

lemma example_rows:
  "\<exists>cells. buildRowsForOrders shortest COLUMNS [example_order] = Inr [\<lparr>rd_values = cells\<rparr>] \<and>
     map_throwing (buildCell shortest example_order) COLUMNS = Inr cells"
  by (simp add: buildRowsForOrders_def example_cells)

lemma example_order_stringifiable:
  "stringifiable (read_prop example_order ''id'')"
  "stringifiable (read_prop example_order ''customerName'')"
  "stringifiable (read_prop example_order ''productCode'')"
  by (simp_all add: example_order_props stringifiable_def)

text \<open>
  Claim C1. In every state of the column table: when each order has an id, a customerName
  and a productCode that can be stringified, the sync operation issues one batch request;
  and for every list of orders, a batch request that sync issues holds a grid-resize
  sub-request with rowCount \<open>length orders + 1\<close> and columnCount 6, and a cell-update
  sub-request starting at row 1, column 0 with exactly \<open>length orders\<close> rows. Each row
  has exactly 6 cells, in the order of the column specification: the id, the customerName
  and the productCode as the strings \<^verbatim>\<open>toString()\<close> gives, the unitsOrdered as a number
  with the NUMBER format, the unitPrice as a number with the CURRENCY format, and the status
  in the stringValue slot with its validation.
\<close>

theorem sync_resize_and_rows:
  assumes "columns_state cols"
  shows \<open>((\<forall>ord \<in> set orders. stringifiable (read_prop ord ''id'') \<and>
             stringifiable (read_prop ord ''customerName'') \<and>
             stringifiable (read_prop ord ''productCode''))
          \<longrightarrow> (\<exists>request. fst (sync shortest svc cols spreadsheetId sheetId orders) =
                 [BatchUpdate request]))
       \<and> (\<forall>request. fst (sync shortest svc cols spreadsheetId sheetId orders) =
                 [BatchUpdate request] \<longrightarrow>
            (\<exists>rows. bu_requests request =
                [UpdateSheetProperties
                   \<lparr>usp_properties =
                      \<lparr>sp_sheetId = Some sheetId, sp_title = None,
                       sp_gridProperties =
                         \<lparr>gp_rowCount = Some (length orders + 1),
                          gp_columnCount = Some 6,
                          gp_frozenRowCount = None, gp_hideGridlines = None\<rparr>\<rparr>,
                    usp_fields = ''gridProperties(rowCount,columnCount)''\<rparr>,
                 UpdateCells
                   \<lparr>uc_start = \<lparr>gc_sheetId = sheetId, gc_rowIndex = 1, gc_columnIndex = 0\<rparr>,
                    uc_rows = rows, uc_fields = ''*''\<rparr>]
              \<and> length rows = length orders
              \<and> (\<forall>i < length orders.
                    length (rd_values (rows ! i)) = 6 \<and>
                    (\<exists>s1 s2 s3.
                       toString shortest (read_prop (orders ! i) ''id'') = Inr s1 \<and>
                       toString shortest (read_prop (orders ! i) ''customerName'') = Inr s2 \<and>
                       toString shortest (read_prop (orders ! i) ''productCode'') = Inr s3 \<and>
                       rd_values (rows ! i) =
                        [\<lparr>userEnteredValue = Some (StringValue (JStr s1)),
                          userEnteredFormat = None, dataValidation = None, pivotTable = None\<rparr>,
                         \<lparr>userEnteredValue = Some (StringValue (JStr s2)),
                          userEnteredFormat = None, dataValidation = None, pivotTable = None\<rparr>,
                         \<lparr>userEnteredValue = Some (StringValue (JStr s3)),
                          userEnteredFormat = None, dataValidation = None, pivotTable = None\<rparr>,
                         \<lparr>userEnteredValue =
                            Some (NumberValue (read_prop (orders ! i) ''unitsOrdered'')),
                          userEnteredFormat =
                            Some (NumberFormat \<lparr>nf_type = ''NUMBER'', nf_pattern = ''#,##0''\<rparr>),
                          dataValidation = None, pivotTable = None\<rparr>,
                         \<lparr>userEnteredValue =
                            Some (NumberValue (read_prop (orders ! i) ''unitPrice'')),
                          userEnteredFormat =
                            Some (NumberFormat
                                    \<lparr>nf_type = ''CURRENCY'', nf_pattern = ''"$"#,##0.00''\<rparr>),
                          dataValidation = None, pivotTable = None\<rparr>,
                         \<lparr>userEnteredValue =
                            Some (StringValue (read_prop (orders ! i) ''status'')),
                          userEnteredFormat = None,
                          dataValidation =
                            Some \<lparr>dv_condition =
                                    \<lparr>bc_type = ''ONE_OF_LIST'',
                                     bc_values = [''PENDING'', ''SHIPPED'', ''DELIVERED'']\<rparr>,
                                  dv_strict = True, dv_showCustomUi = True\<rparr>,
                          pivotTable = None\<rparr>]))))
       \<and> map field COLUMNS =
           [''id'', ''customerName'', ''productCode'', ''unitsOrdered'', ''unitPrice'',
            ''status'']\<close>
proof (intro conjI impI allI)
  assume "\<forall>ord \<in> set orders. stringifiable (read_prop ord ''id'') \<and>
             stringifiable (read_prop ord ''customerName'') \<and>
             stringifiable (read_prop ord ''productCode'')"
  then obtain rows where "buildRowsForOrders shortest cols orders = Inr rows"
    using rows_succeed[OF assms] by blast
  then show "\<exists>request. fst (sync shortest svc cols spreadsheetId sheetId orders) =
                 [BatchUpdate request]"
    by (simp add: sync_calls)
next
  fix request
  assume req: "fst (sync shortest svc cols spreadsheetId sheetId orders) = [BatchUpdate request]"
  then obtain rows where rows: "buildRowsForOrders shortest cols orders = Inr rows"
    by (cases "buildRowsForOrders shortest cols orders") (simp_all add: sync_calls)
  have six: "length (rd_values (rows ! i)) = 6" if "i < length orders" for i
    by (rule row_cell_nth(1)[OF assms rows that, of 0]) simp
  from req rows have "bu_requests request =
                [UpdateSheetProperties
                   \<lparr>usp_properties =
                      \<lparr>sp_sheetId = Some sheetId, sp_title = None,
                       sp_gridProperties =
                         \<lparr>gp_rowCount = Some (length orders + 1),
                          gp_columnCount = Some 6,
                          gp_frozenRowCount = None, gp_hideGridlines = None\<rparr>\<rparr>,
                    usp_fields = ''gridProperties(rowCount,columnCount)''\<rparr>,
                 UpdateCells
                   \<lparr>uc_start = \<lparr>gc_sheetId = sheetId, gc_rowIndex = 1, gc_columnIndex = 0\<rparr>,
                    uc_rows = rows, uc_fields = ''*''\<rparr>]"
    using columns_state_length[OF assms] by (auto simp add: sync_calls)
  with six row_cells_explicit[OF assms rows] buildRowsForOrders_Inr(1)[OF rows]
  show \<open>\<exists>rows. bu_requests request =
                [UpdateSheetProperties
                   \<lparr>usp_properties =
                      \<lparr>sp_sheetId = Some sheetId, sp_title = None,
                       sp_gridProperties =
                         \<lparr>gp_rowCount = Some (length orders + 1),
                          gp_columnCount = Some 6,
                          gp_frozenRowCount = None, gp_hideGridlines = None\<rparr>\<rparr>,
                    usp_fields = ''gridProperties(rowCount,columnCount)''\<rparr>,
                 UpdateCells
                   \<lparr>uc_start = \<lparr>gc_sheetId = sheetId, gc_rowIndex = 1, gc_columnIndex = 0\<rparr>,
                    uc_rows = rows, uc_fields = ''*''\<rparr>]
              \<and> length rows = length orders
              \<and> (\<forall>i < length orders.
                    length (rd_values (rows ! i)) = 6 \<and>
                    (\<exists>s1 s2 s3.
                       toString shortest (read_prop (orders ! i) ''id'') = Inr s1 \<and>
                       toString shortest (read_prop (orders ! i) ''customerName'') = Inr s2 \<and>
                       toString shortest (read_prop (orders ! i) ''productCode'') = Inr s3 \<and>
                       rd_values (rows ! i) =
                        [\<lparr>userEnteredValue = Some (StringValue (JStr s1)),
                          userEnteredFormat = None, dataValidation = None, pivotTable = None\<rparr>,
                         \<lparr>userEnteredValue = Some (StringValue (JStr s2)),
                          userEnteredFormat = None, dataValidation = None, pivotTable = None\<rparr>,
                         \<lparr>userEnteredValue = Some (StringValue (JStr s3)),
                          userEnteredFormat = None, dataValidation = None, pivotTable = None\<rparr>,
                         \<lparr>userEnteredValue =
                            Some (NumberValue (read_prop (orders ! i) ''unitsOrdered'')),
                          userEnteredFormat =
                            Some (NumberFormat \<lparr>nf_type = ''NUMBER'', nf_pattern = ''#,##0''\<rparr>),
                          dataValidation = None, pivotTable = None\<rparr>,
                         \<lparr>userEnteredValue =
                            Some (NumberValue (read_prop (orders ! i) ''unitPrice'')),
                          userEnteredFormat =
                            Some (NumberFormat
                                    \<lparr>nf_type = ''CURRENCY'', nf_pattern = ''"$"#,##0.00''\<rparr>),
                          dataValidation = None, pivotTable = None\<rparr>,
                         \<lparr>userEnteredValue =
                            Some (StringValue (read_prop (orders ! i) ''status'')),
                          userEnteredFormat = None,
                          dataValidation =
                            Some \<lparr>dv_condition =
                                    \<lparr>bc_type = ''ONE_OF_LIST'',
                                     bc_values = [''PENDING'', ''SHIPPED'', ''DELIVERED'']\<rparr>,
                                  dv_strict = True, dv_showCustomUi = True\<rparr>,
                          pivotTable = None\<rparr>]))\<close>
    by blast
next
  show "map field COLUMNS =
           [''id'', ''customerName'', ''productCode'', ''unitsOrdered'', ''unitPrice'',
            ''status'']"
    by (simp add: COLUMNS_def)
qed

theorem sync_resize_and_rows_witness:
  \<open>columns_state COLUMNS
   \<and> stringifiable (read_prop example_order ''id'')
   \<and> stringifiable (read_prop example_order ''customerName'')
   \<and> stringifiable (read_prop example_order ''productCode'')
   \<and> (\<exists>request rows.
         fst (sync no_fractions offline_service COLUMNS (JStr ''abc'') (JNum 0) [example_order]) =
           [BatchUpdate request]
         \<and> bu_requests request =
             [UpdateSheetProperties
                \<lparr>usp_properties =
                   \<lparr>sp_sheetId = Some (JNum 0), sp_title = None,
                    sp_gridProperties =
                      \<lparr>gp_rowCount = Some 2, gp_columnCount = Some 6,
                       gp_frozenRowCount = None, gp_hideGridlines = None\<rparr>\<rparr>,
                 usp_fields = ''gridProperties(rowCount,columnCount)''\<rparr>,
              UpdateCells
                \<lparr>uc_start = \<lparr>gc_sheetId = JNum 0, gc_rowIndex = 1, gc_columnIndex = 0\<rparr>,
                 uc_rows = rows, uc_fields = ''*''\<rparr>]
         \<and> length rows = 1
         \<and> length (rd_values (rows ! 0)) = 6
         \<and> rd_values (rows ! 0) =
             [\<lparr>userEnteredValue = Some (StringValue (JStr ''1'')),
               userEnteredFormat = None, dataValidation = None, pivotTable = None\<rparr>,
              \<lparr>userEnteredValue = Some (StringValue (JStr ''A'')),
               userEnteredFormat = None, dataValidation = None, pivotTable = None\<rparr>,
              \<lparr>userEnteredValue = Some (StringValue (JStr ''X1'')),
               userEnteredFormat = None, dataValidation = None, pivotTable = None\<rparr>,
              \<lparr>userEnteredValue = Some (NumberValue (JNum 3)),
               userEnteredFormat =
                 Some (NumberFormat \<lparr>nf_type = ''NUMBER'', nf_pattern = ''#,##0''\<rparr>),
               dataValidation = None, pivotTable = None\<rparr>,
              \<lparr>userEnteredValue = Some (NumberValue (JNum 9.5)),
               userEnteredFormat =
                 Some (NumberFormat \<lparr>nf_type = ''CURRENCY'', nf_pattern = ''"$"#,##0.00''\<rparr>),
               dataValidation = None, pivotTable = None\<rparr>,
              \<lparr>userEnteredValue = Some (StringValue (JStr ''PENDING'')),
               userEnteredFormat = None,
               dataValidation =
                 Some \<lparr>dv_condition =
                         \<lparr>bc_type = ''ONE_OF_LIST'',
                          bc_values = [''PENDING'', ''SHIPPED'', ''DELIVERED'']\<rparr>,
                       dv_strict = True, dv_showCustomUi = True\<rparr>,
               pivotTable = None\<rparr>])\<close>
proof -
  note inst = sync_resize_and_rows[OF columns_state_COLUMNS, of "[example_order]" no_fractions
      offline_service "JStr ''abc''" "JNum 0"]
  from inst example_order_stringifiable obtain request where
    r: "fst (sync no_fractions offline_service COLUMNS (JStr ''abc'') (JNum 0) [example_order]) =
           [BatchUpdate request]"
    by auto
  with inst obtain rows where rows: "bu_requests request =
             [UpdateSheetProperties
                \<lparr>usp_properties =
                   \<lparr>sp_sheetId = Some (JNum 0), sp_title = None,
                    sp_gridProperties =
                      \<lparr>gp_rowCount = Some (length [example_order] + 1), gp_columnCount = Some 6,
                       gp_frozenRowCount = None, gp_hideGridlines = None\<rparr>\<rparr>,
                 usp_fields = ''gridProperties(rowCount,columnCount)''\<rparr>,
              UpdateCells
                \<lparr>uc_start = \<lparr>gc_sheetId = JNum 0, gc_rowIndex = 1, gc_columnIndex = 0\<rparr>,
                 uc_rows = rows, uc_fields = ''*''\<rparr>]"
     "length rows = length [example_order]"
    and cells: \<open>\<forall>i < length [example_order].
         length (rd_values (rows ! i)) = 6 \<and>
         (\<exists>s1 s2 s3.
            toString no_fractions (read_prop ([example_order] ! i) ''id'') = Inr s1 \<and>
            toString no_fractions (read_prop ([example_order] ! i) ''customerName'') = Inr s2 \<and>
            toString no_fractions (read_prop ([example_order] ! i) ''productCode'') = Inr s3 \<and>
            rd_values (rows ! i) =
              [\<lparr>userEnteredValue = Some (StringValue (JStr s1)),
                          userEnteredFormat = None, dataValidation = None, pivotTable = None\<rparr>,
                         \<lparr>userEnteredValue = Some (StringValue (JStr s2)),
                          userEnteredFormat = None, dataValidation = None, pivotTable = None\<rparr>,
                         \<lparr>userEnteredValue = Some (StringValue (JStr s3)),
                          userEnteredFormat = None, dataValidation = None, pivotTable = None\<rparr>,
                         \<lparr>userEnteredValue =
                            Some (NumberValue (read_prop ([example_order] ! i) ''unitsOrdered'')),
                          userEnteredFormat =
                            Some (NumberFormat \<lparr>nf_type = ''NUMBER'', nf_pattern = ''#,##0''\<rparr>),
                          dataValidation = None, pivotTable = None\<rparr>,
                         \<lparr>userEnteredValue =
                            Some (NumberValue (read_prop ([example_order] ! i) ''unitPrice'')),
                          userEnteredFormat =
                            Some (NumberFormat
                                    \<lparr>nf_type = ''CURRENCY'', nf_pattern = ''"$"#,##0.00''\<rparr>),
                          dataValidation = None, pivotTable = None\<rparr>,
                         \<lparr>userEnteredValue =
                            Some (StringValue (read_prop ([example_order] ! i) ''status'')),
                          userEnteredFormat = None,
                          dataValidation =
                            Some \<lparr>dv_condition =
                                    \<lparr>bc_type = ''ONE_OF_LIST'',
                                     bc_values = [''PENDING'', ''SHIPPED'', ''DELIVERED'']\<rparr>,
                                  dv_strict = True, dv_showCustomUi = True\<rparr>,
                          pivotTable = None\<rparr>])\<close>
    by blast
  from cells have "length (rd_values (rows ! 0)) = 6"
    and \<open>rd_values (rows ! 0) =
             [\<lparr>userEnteredValue = Some (StringValue (JStr ''1'')),
               userEnteredFormat = None, dataValidation = None, pivotTable = None\<rparr>,
              \<lparr>userEnteredValue = Some (StringValue (JStr ''A'')),
               userEnteredFormat = None, dataValidation = None, pivotTable = None\<rparr>,
              \<lparr>userEnteredValue = Some (StringValue (JStr ''X1'')),
               userEnteredFormat = None, dataValidation = None, pivotTable = None\<rparr>,
              \<lparr>userEnteredValue = Some (NumberValue (JNum 3)),
               userEnteredFormat =
                 Some (NumberFormat \<lparr>nf_type = ''NUMBER'', nf_pattern = ''#,##0''\<rparr>),
               dataValidation = None, pivotTable = None\<rparr>,
              \<lparr>userEnteredValue = Some (NumberValue (JNum 9.5)),
               userEnteredFormat =
                 Some (NumberFormat \<lparr>nf_type = ''CURRENCY'', nf_pattern = ''"$"#,##0.00''\<rparr>),
               dataValidation = None, pivotTable = None\<rparr>,
              \<lparr>userEnteredValue = Some (StringValue (JStr ''PENDING'')),
               userEnteredFormat = None,
               dataValidation =
                 Some \<lparr>dv_condition =
                         \<lparr>bc_type = ''ONE_OF_LIST'',
                          bc_values = [''PENDING'', ''SHIPPED'', ''DELIVERED'']\<rparr>,
                       dv_strict = True, dv_showCustomUi = True\<rparr>,
               pivotTable = None\<rparr>]\<close>
    by (auto simp add: example_order_props Number_toString_1)
  with r rows show ?thesis
    using columns_state_COLUMNS example_order_stringifiable by auto
qed

text \<open>
  Claim C10. In every state of the column table: when each order has an id, a customerName
  and a productCode that can be stringified, sync issues one batch request; and for every
  list of orders, every call that sync issues is a batch request with exactly two
  sub-requests, the grid resize (updateSheetProperties) first and the cell update
  (updateCells) second.
\<close>

theorem sync_two_subrequests:
  assumes "columns_state cols"
  shows "((\<forall>ord \<in> set orders. stringifiable (read_prop ord ''id'') \<and>
             stringifiable (read_prop ord ''customerName'') \<and>
             stringifiable (read_prop ord ''productCode''))
          \<longrightarrow> (\<exists>request. fst (sync shortest svc cols spreadsheetId sheetId orders) =
                 [BatchUpdate request]))
       \<and> (\<forall>call \<in> set (fst (sync shortest svc cols spreadsheetId sheetId orders)).
            \<exists>request resize cells.
              call = BatchUpdate request \<and>
              bu_requests request = [UpdateSheetProperties resize, UpdateCells cells] \<and>
              length (bu_requests request) = 2)"
proof (intro conjI impI ballI)
  assume "\<forall>ord \<in> set orders. stringifiable (read_prop ord ''id'') \<and>
             stringifiable (read_prop ord ''customerName'') \<and>
             stringifiable (read_prop ord ''productCode'')"
  then obtain rows where "buildRowsForOrders shortest cols orders = Inr rows"
    using rows_succeed[OF assms] by blast
  then show "\<exists>request. fst (sync shortest svc cols spreadsheetId sheetId orders) =
                 [BatchUpdate request]"
    by (simp add: sync_calls)
next
  fix call
  assume "call \<in> set (fst (sync shortest svc cols spreadsheetId sheetId orders))"
  then show "\<exists>request resize cells.
              call = BatchUpdate request \<and>
              bu_requests request = [UpdateSheetProperties resize, UpdateCells cells] \<and>
              length (bu_requests request) = 2"
    by (cases "buildRowsForOrders shortest cols orders") (simp_all add: sync_calls)
qed

theorem sync_two_subrequests_witness:
  "columns_state COLUMNS
   \<and> stringifiable (read_prop example_order ''id'')
   \<and> stringifiable (read_prop example_order ''customerName'')
   \<and> stringifiable (read_prop example_order ''productCode'')
   \<and> (\<exists>request resize cells.
         fst (sync no_fractions offline_service COLUMNS (JStr ''abc'') (JNum 0) [example_order]) =
           [BatchUpdate request]
         \<and> bu_requests request = [UpdateSheetProperties resize, UpdateCells cells]
         \<and> length (bu_requests request) = 2)"
proof -
  note inst = sync_two_subrequests[OF columns_state_COLUMNS, of "[example_order]" no_fractions
      offline_service "JStr ''abc''" "JNum 0"]
  from inst example_order_stringifiable obtain request where
    r: "fst (sync no_fractions offline_service COLUMNS (JStr ''abc'') (JNum 0) [example_order]) =
           [BatchUpdate request]"
    by auto
  then have "BatchUpdate request \<in> set (fst (sync no_fractions offline_service COLUMNS
      (JStr ''abc'') (JNum 0) [example_order]))"
    by simp
  with inst obtain request' resize cells where
    "BatchUpdate request = BatchUpdate request'"
    "bu_requests request' = [UpdateSheetProperties resize, UpdateCells cells]"
    "length (bu_requests request') = 2"
    by blast
  with r show ?thesis
    using columns_state_COLUMNS example_order_stringifiable by auto
qed

section \<open>Number formats\<close>

text \<open>
  Claim C2 as stated fails: for the example order, the unitPrice cell carries the
  eleven-character pattern in which the dollar sign stands between double quotes, not the
  nine-character pattern \<^verbatim>\<open>$#,##0.00\<close>.
\<close>

theorem unitPrice_pattern_counterexample:
  \<open>field (COLUMNS ! 4) = ''unitPrice'' \<and>
   buildCell no_fractions example_order (COLUMNS ! 4) =
     Inr \<lparr>userEnteredValue = Some (NumberValue (JNum 9.5)),
          userEnteredFormat =
            Some (NumberFormat \<lparr>nf_type = ''CURRENCY'', nf_pattern = ''"$"#,##0.00''\<rparr>),
          dataValidation = None, pivotTable = None\<rparr> \<and>
   ''"$"#,##0.00'' \<noteq> ''$#,##0.00''\<close>
  by (simp add: COLUMNS_nth_field buildCell_unitPrice example_order_props)

text \<open>
  Claim C2, amended. For every order, the cell built for the unitPrice column carries a
  CURRENCY number format whose pattern is the dollar sign between double quotes followed by
  \<^verbatim>\<open>#,##0.00\<close>, and the cell built for the unitsOrdered column carries a NUMBER format
  with pattern \<^verbatim>\<open>#,##0\<close>; in every row the builder returns these are the cells at
  positions 4 and 3.
\<close>

theorem number_format_patterns:
  \<open>(field c = ''unitPrice'' \<longrightarrow>
      buildCell shortest ord c =
        Inr \<lparr>userEnteredValue = Some (NumberValue (read_prop ord ''unitPrice'')),
             userEnteredFormat =
               Some (NumberFormat \<lparr>nf_type = ''CURRENCY'', nf_pattern = ''"$"#,##0.00''\<rparr>),
             dataValidation = None, pivotTable = None\<rparr>)
   \<and> (field c = ''unitsOrdered'' \<longrightarrow>
      buildCell shortest ord c =
        Inr \<lparr>userEnteredValue = Some (NumberValue (read_prop ord ''unitsOrdered'')),
             userEnteredFormat =
               Some (NumberFormat \<lparr>nf_type = ''NUMBER'', nf_pattern = ''#,##0''\<rparr>),
             dataValidation = None, pivotTable = None\<rparr>)
   \<and> (columns_state cols \<longrightarrow> buildRowsForOrders shortest cols orders = Inr rows \<longrightarrow>
        (\<forall>i < length orders.
           userEnteredFormat (rd_values (rows ! i) ! 3) =
             Some (NumberFormat \<lparr>nf_type = ''NUMBER'', nf_pattern = ''#,##0''\<rparr>) \<and>
           userEnteredFormat (rd_values (rows ! i) ! 4) =
             Some (NumberFormat \<lparr>nf_type = ''CURRENCY'', nf_pattern = ''"$"#,##0.00''\<rparr>)))\<close>
proof (intro conjI impI allI)
  assume "field c = ''unitPrice''"
  then show \<open>buildCell shortest ord c =
        Inr \<lparr>userEnteredValue = Some (NumberValue (read_prop ord ''unitPrice'')),
             userEnteredFormat =
               Some (NumberFormat \<lparr>nf_type = ''CURRENCY'', nf_pattern = ''"$"#,##0.00''\<rparr>),
             dataValidation = None, pivotTable = None\<rparr>\<close>
    by (rule buildCell_unitPrice)
next
  assume "field c = ''unitsOrdered''"
  then show "buildCell shortest ord c =
        Inr \<lparr>userEnteredValue = Some (NumberValue (read_prop ord ''unitsOrdered'')),
             userEnteredFormat =
               Some (NumberFormat \<lparr>nf_type = ''NUMBER'', nf_pattern = ''#,##0''\<rparr>),
             dataValidation = None, pivotTable = None\<rparr>"
    by (rule buildCell_unitsOrdered)
next
  fix i
  assume st: "columns_state cols" and rows: "buildRowsForOrders shortest cols orders = Inr rows"
    and i: "i < length orders"
  have "Inr (rd_values (rows ! i) ! 3) = buildCell shortest (orders ! i) (COLUMNS ! 3)"
    by (rule row_cell_nth(2)[OF st rows i]) simp
  then show "userEnteredFormat (rd_values (rows ! i) ! 3) =
             Some (NumberFormat \<lparr>nf_type = ''NUMBER'', nf_pattern = ''#,##0''\<rparr>)"
    by (simp add: buildCell_unitsOrdered[OF COLUMNS_nth_field(4)])
next
  fix i
  assume st: "columns_state cols" and rows: "buildRowsForOrders shortest cols orders = Inr rows"
    and i: "i < length orders"
  have "Inr (rd_values (rows ! i) ! 4) = buildCell shortest (orders ! i) (COLUMNS ! 4)"
    by (rule row_cell_nth(2)[OF st rows i]) simp
  then show \<open>userEnteredFormat (rd_values (rows ! i) ! 4) =
             Some (NumberFormat \<lparr>nf_type = ''CURRENCY'', nf_pattern = ''"$"#,##0.00''\<rparr>)\<close>
    by (simp add: buildCell_unitPrice[OF COLUMNS_nth_field(5)])
qed

theorem number_format_patterns_witness:
  \<open>field (COLUMNS ! 4) = ''unitPrice'' \<and> field (COLUMNS ! 3) = ''unitsOrdered''
   \<and> columns_state COLUMNS
   \<and> (\<exists>rows. buildRowsForOrders no_fractions COLUMNS [example_order] = Inr rows
        \<and> userEnteredFormat (rd_values (rows ! 0) ! 3) =
             Some (NumberFormat \<lparr>nf_type = ''NUMBER'', nf_pattern = ''#,##0''\<rparr>)
        \<and> userEnteredFormat (rd_values (rows ! 0) ! 4) =
             Some (NumberFormat \<lparr>nf_type = ''CURRENCY'', nf_pattern = ''"$"#,##0.00''\<rparr>))
   \<and> buildCell no_fractions example_order (COLUMNS ! 4) =
        Inr \<lparr>userEnteredValue = Some (NumberValue (JNum 9.5)),
             userEnteredFormat =
               Some (NumberFormat \<lparr>nf_type = ''CURRENCY'', nf_pattern = ''"$"#,##0.00''\<rparr>),
             dataValidation = None, pivotTable = None\<rparr>
   \<and> buildCell no_fractions example_order (COLUMNS ! 3) =
        Inr \<lparr>userEnteredValue = Some (NumberValue (JNum 3)),
             userEnteredFormat =
               Some (NumberFormat \<lparr>nf_type = ''NUMBER'', nf_pattern = ''#,##0''\<rparr>),
             dataValidation = None, pivotTable = None\<rparr>\<close>
proof -
  obtain rows where rows: "buildRowsForOrders no_fractions COLUMNS [example_order] = Inr rows"
    using example_rows by blast
  note a = number_format_patterns[of "COLUMNS ! 4" no_fractions example_order COLUMNS
      "[example_order]" rows]
  note b = number_format_patterns[of "COLUMNS ! 3" no_fractions example_order COLUMNS
      "[example_order]" rows]
  from a b rows show ?thesis
    using columns_state_COLUMNS COLUMNS_nth_field example_order_props by auto
qed

section \<open>The example of the specification\<close>

lemma example_cells_state:
  assumes "columns_state cols"
  shows "map_throwing (buildCell shortest example_order) cols =
         map_throwing (buildCell shortest example_order) COLUMNS"
proof -
  obtain cells where c: "map_throwing (buildCell shortest example_order) COLUMNS = Inr cells"
    using example_cells by simp
  then have "map (buildCell shortest example_order) cols = map Inr cells"
    using row_cells_state[OF assms] by (simp add: map_throwing_Inr_iff)
  then have "map_throwing (buildCell shortest example_order) cols = Inr cells"
    by (simp add: map_throwing_Inr_iff)
  with c show ?thesis by simp
qed

text \<open>
  Claim C7. For the single-order list of the example (id 1, customerName "A", productCode
  "X1", unitsOrdered 3, unitPrice 9.5, status "PENDING"), in every state of the column
  table, sync issues one batch request: a resize to rowCount 2 and columnCount 6, and one
  row of six cells whose values are the strings "1", "A", "X1", the numbers 3 and 9.5 and
  the string "PENDING". In general the cell of a column other than unitsOrdered, unitPrice
  and status holds, as a string, the result of \<^verbatim>\<open>toString()\<close> on the order's property;
  that result is "1" for the number 1 and the string itself for a string.
\<close>

theorem example_sync_request:
  assumes "columns_state cols"
  shows \<open>fst (sync shortest svc cols spreadsheetId sheetId [example_order]) =
     [BatchUpdate
        \<lparr>bu_spreadsheetId = spreadsheetId,
         bu_requests =
           [UpdateSheetProperties
              \<lparr>usp_properties =
                 \<lparr>sp_sheetId = Some sheetId, sp_title = None,
                  sp_gridProperties =
                    \<lparr>gp_rowCount = Some 2, gp_columnCount = Some 6,
                     gp_frozenRowCount = None, gp_hideGridlines = None\<rparr>\<rparr>,
               usp_fields = ''gridProperties(rowCount,columnCount)''\<rparr>,
            UpdateCells
              \<lparr>uc_start = \<lparr>gc_sheetId = sheetId, gc_rowIndex = 1, gc_columnIndex = 0\<rparr>,
               uc_rows =
                 [\<lparr>rd_values =
                    [\<lparr>userEnteredValue = Some (StringValue (JStr ''1'')),
                      userEnteredFormat = None, dataValidation = None, pivotTable = None\<rparr>,
                     \<lparr>userEnteredValue = Some (StringValue (JStr ''A'')),
                      userEnteredFormat = None, dataValidation = None, pivotTable = None\<rparr>,
                     \<lparr>userEnteredValue = Some (StringValue (JStr ''X1'')),
                      userEnteredFormat = None, dataValidation = None, pivotTable = None\<rparr>,
                     \<lparr>userEnteredValue = Some (NumberValue (JNum 3)),
                      userEnteredFormat =
                        Some (NumberFormat \<lparr>nf_type = ''NUMBER'', nf_pattern = ''#,##0''\<rparr>),
                      dataValidation = None, pivotTable = None\<rparr>,
                     \<lparr>userEnteredValue = Some (NumberValue (JNum 9.5)),
                      userEnteredFormat =
                        Some (NumberFormat
                                \<lparr>nf_type = ''CURRENCY'', nf_pattern = ''"$"#,##0.00''\<rparr>),
                      dataValidation = None, pivotTable = None\<rparr>,
                     \<lparr>userEnteredValue = Some (StringValue (JStr ''PENDING'')),
                      userEnteredFormat = None,
                      dataValidation =
                        Some \<lparr>dv_condition =
                                \<lparr>bc_type = ''ONE_OF_LIST'',
                                 bc_values = [''PENDING'', ''SHIPPED'', ''DELIVERED'']\<rparr>,
                              dv_strict = True, dv_showCustomUi = True\<rparr>,
                      pivotTable = None\<rparr>]\<rparr>],
               uc_fields = ''*''\<rparr>]\<rparr>]
   \<and> (field c \<noteq> ''unitsOrdered'' \<and> field c \<noteq> ''unitPrice'' \<and> field c \<noteq> ''status'' \<longrightarrow>
        toString shortest (read_prop ord (field c)) = Inr s \<longrightarrow>
        buildCell shortest ord c =
          Inr \<lparr>userEnteredValue = Some (StringValue (JStr s)),
               userEnteredFormat = None, dataValidation = None, pivotTable = None\<rparr>)
   \<and> toString shortest (JNum 1) = Inr ''1''
   \<and> toString shortest (JStr t) = Inr t\<close>
proof (intro conjI impI)
  have "buildRowsForOrders shortest cols [example_order] =
     (case map_throwing (buildCell shortest example_order) COLUMNS of
        Inl e \<Rightarrow> Inl e | Inr cells \<Rightarrow> Inr [\<lparr>rd_values = cells\<rparr>])"
    by (simp add: buildRowsForOrders_def example_cells_state[OF assms] split: sum.splits)
  then show \<open>fst (sync shortest svc cols spreadsheetId sheetId [example_order]) =
     [BatchUpdate
        \<lparr>bu_spreadsheetId = spreadsheetId,
         bu_requests =
           [UpdateSheetProperties
              \<lparr>usp_properties =
                 \<lparr>sp_sheetId = Some sheetId, sp_title = None,
                  sp_gridProperties =
                    \<lparr>gp_rowCount = Some 2, gp_columnCount = Some 6,
                     gp_frozenRowCount = None, gp_hideGridlines = None\<rparr>\<rparr>,
               usp_fields = ''gridProperties(rowCount,columnCount)''\<rparr>,
            UpdateCells
              \<lparr>uc_start = \<lparr>gc_sheetId = sheetId, gc_rowIndex = 1, gc_columnIndex = 0\<rparr>,
               uc_rows =
                 [\<lparr>rd_values =
                    [\<lparr>userEnteredValue = Some (StringValue (JStr ''1'')),
                      userEnteredFormat = None, dataValidation = None, pivotTable = None\<rparr>,
                     \<lparr>userEnteredValue = Some (StringValue (JStr ''A'')),
                      userEnteredFormat = None, dataValidation = None, pivotTable = None\<rparr>,
                     \<lparr>userEnteredValue = Some (StringValue (JStr ''X1'')),
                      userEnteredFormat = None, dataValidation = None, pivotTable = None\<rparr>,
                     \<lparr>userEnteredValue = Some (NumberValue (JNum 3)),
                      userEnteredFormat =
                        Some (NumberFormat \<lparr>nf_type = ''NUMBER'', nf_pattern = ''#,##0''\<rparr>),
                      dataValidation = None, pivotTable = None\<rparr>,
                     \<lparr>userEnteredValue = Some (NumberValue (JNum 9.5)),
                      userEnteredFormat =
                        Some (NumberFormat
                                \<lparr>nf_type = ''CURRENCY'', nf_pattern = ''"$"#,##0.00''\<rparr>),
                      dataValidation = None, pivotTable = None\<rparr>,
                     \<lparr>userEnteredValue = Some (StringValue (JStr ''PENDING'')),
                      userEnteredFormat = None,
                      dataValidation =
                        Some \<lparr>dv_condition =
                                \<lparr>bc_type = ''ONE_OF_LIST'',
                                 bc_values = [''PENDING'', ''SHIPPED'', ''DELIVERED'']\<rparr>,
                              dv_strict = True, dv_showCustomUi = True\<rparr>,
                      pivotTable = None\<rparr>]\<rparr>],
               uc_fields = ''*''\<rparr>]\<rparr>]\<close>
    by (simp add: sync_calls example_cells columns_state_length[OF assms])
next
  assume "field c \<noteq> ''unitsOrdered'' \<and> field c \<noteq> ''unitPrice'' \<and> field c \<noteq> ''status''"
    and "toString shortest (read_prop ord (field c)) = Inr s"
  then show "buildCell shortest ord c =
          Inr \<lparr>userEnteredValue = Some (StringValue (JStr s)),
               userEnteredFormat = None, dataValidation = None, pivotTable = None\<rparr>"
    by (simp add: buildCell_default)
next
  show "toString shortest (JNum 1) = Inr ''1''" by (simp add: Number_toString_1)
next
  show "toString shortest (JStr t) = Inr t" by simp
qed

theorem example_sync_request_witness:
  "columns_state COLUMNS
   \<and> field (COLUMNS ! 0) \<noteq> ''unitsOrdered'' \<and> field (COLUMNS ! 0) \<noteq> ''unitPrice''
   \<and> field (COLUMNS ! 0) \<noteq> ''status''
   \<and> toString no_fractions (read_prop example_order (field (COLUMNS ! 0))) = Inr ''1''
   \<and> buildCell no_fractions example_order (COLUMNS ! 0) =
        Inr \<lparr>userEnteredValue = Some (StringValue (JStr ''1'')),
             userEnteredFormat = None, dataValidation = None, pivotTable = None\<rparr>
   \<and> (\<exists>request. fst (sync no_fractions offline_service COLUMNS (JStr ''abc'') (JNum 0)
                     [example_order]) = [BatchUpdate request])"
proof -
  have f: "field (COLUMNS ! 0) \<noteq> ''unitsOrdered'' \<and> field (COLUMNS ! 0) \<noteq> ''unitPrice''
     \<and> field (COLUMNS ! 0) \<noteq> ''status''"
    by (simp add: COLUMNS_nth_field)
  have t: "toString no_fractions (read_prop example_order (field (COLUMNS ! 0))) = Inr ''1''"
    by (simp add: COLUMNS_nth_field example_order_props Number_toString_1)
  note inst = example_sync_request[OF columns_state_COLUMNS, of no_fractions offline_service
      "JStr ''abc''" "JNum 0" "COLUMNS ! 0" example_order "''1''"]
  from inst f t show ?thesis using columns_state_COLUMNS by simp
qed

section \<open>Orders with missing fields\<close>

lemma order_without_status_props:
  "read_prop (example_order(''status'' := None)) ''id'' = JNum 1"
  "read_prop (example_order(''status'' := None)) ''customerName'' = JStr ''A''"
  "read_prop (example_order(''status'' := None)) ''productCode'' = JStr ''X1''"
  "read_prop (example_order(''status'' := None)) ''unitsOrdered'' = JNum 3"
  "read_prop (example_order(''status'' := None)) ''unitPrice'' = JNum 9.5"
  "read_prop (example_order(''status'' := None)) ''status'' = JUndefined"
  by (simp_all add: read_prop_def example_order_def)

text \<open>
  Claim C3 as stated fails: for the example order without its status property the builder
  does not fail. It returns a row whose status cell holds undefined in the stringValue slot.
\<close>

theorem missing_status_counterexample:
  \<open>(example_order(''status'' := None)) ''status'' = None \<and>
   buildRowsForOrders no_fractions COLUMNS [example_order(''status'' := None)] =
     Inr [\<lparr>rd_values =
            [\<lparr>userEnteredValue = Some (StringValue (JStr ''1'')),
              userEnteredFormat = None, dataValidation = None, pivotTable = None\<rparr>,
             \<lparr>userEnteredValue = Some (StringValue (JStr ''A'')),
              userEnteredFormat = None, dataValidation = None, pivotTable = None\<rparr>,
             \<lparr>userEnteredValue = Some (StringValue (JStr ''X1'')),
              userEnteredFormat = None, dataValidation = None, pivotTable = None\<rparr>,
             \<lparr>userEnteredValue = Some (NumberValue (JNum 3)),
              userEnteredFormat =
                Some (NumberFormat \<lparr>nf_type = ''NUMBER'', nf_pattern = ''#,##0''\<rparr>),
              dataValidation = None, pivotTable = None\<rparr>,
             \<lparr>userEnteredValue = Some (NumberValue (JNum 9.5)),
              userEnteredFormat =
                Some (NumberFormat \<lparr>nf_type = ''CURRENCY'', nf_pattern = ''"$"#,##0.00''\<rparr>),
              dataValidation = None, pivotTable = None\<rparr>,
             \<lparr>userEnteredValue = Some (StringValue JUndefined),
              userEnteredFormat = None,
              dataValidation =
                Some \<lparr>dv_condition =
                        \<lparr>bc_type = ''ONE_OF_LIST'',
                         bc_values = [''PENDING'', ''SHIPPED'', ''DELIVERED'']\<rparr>,
                      dv_strict = True, dv_showCustomUi = True\<rparr>,
              pivotTable = None\<rparr>]\<rparr>]\<close>
  by (simp add: buildRowsForOrders_def COLUMNS_def buildCell_def order_without_status_props
      Number_toString_1)

text \<open>
  Claim C3, amended. In every state of the column table: when the id, the customerName or
  the productCode of an order of the list is missing, undefined or null, the builder fails
  with the TypeError that \<^verbatim>\<open>toString()\<close> throws on it. When each order's id, customerName
  and productCode is neither undefined nor null, the builder does not fail, whatever is
  missing among unitsOrdered, unitPrice and status: their cells hold the property as read,
  and a property that is missing reads as undefined. No default value is substituted.
\<close>

theorem missing_field_behaviour:
  assumes "columns_state cols"
  shows "(ord \<in> set orders \<and>
            (\<not> stringifiable (read_prop ord ''id'') \<or>
             \<not> stringifiable (read_prop ord ''customerName'') \<or>
             \<not> stringifiable (read_prop ord ''productCode''))
          \<longrightarrow> buildRowsForOrders shortest cols orders = Inl TypeError)
       \<and> ((\<forall>ord \<in> set orders. stringifiable (read_prop ord ''id'') \<and>
             stringifiable (read_prop ord ''customerName'') \<and>
             stringifiable (read_prop ord ''productCode''))
          \<longrightarrow> (\<exists>rows. buildRowsForOrders shortest cols orders = Inr rows \<and>
                (\<forall>i < length orders.
                   userEnteredValue (rd_values (rows ! i) ! 3) =
                     Some (NumberValue (read_prop (orders ! i) ''unitsOrdered'')) \<and>
                   userEnteredValue (rd_values (rows ! i) ! 4) =
                     Some (NumberValue (read_prop (orders ! i) ''unitPrice'')) \<and>
                   userEnteredValue (rd_values (rows ! i) ! 5) =
                     Some (StringValue (read_prop (orders ! i) ''status'')))))
       \<and> (ord k = None \<longrightarrow>
            read_prop ord k = JUndefined \<and> \<not> stringifiable (read_prop ord k))
       \<and> \<not> stringifiable JUndefined \<and> \<not> stringifiable JNull"
proof (intro conjI impI)
  assume a: "ord \<in> set orders \<and>
            (\<not> stringifiable (read_prop ord ''id'') \<or>
             \<not> stringifiable (read_prop ord ''customerName'') \<or>
             \<not> stringifiable (read_prop ord ''productCode''))"
  then obtain k where "k = ''id'' \<or> k = ''customerName'' \<or> k = ''productCode''"
    and "\<not> stringifiable (read_prop ord k)" by blast
  with a show "buildRowsForOrders shortest cols orders = Inl TypeError"
    using rows_fail[OF assms] by blast
next
  assume "\<forall>ord \<in> set orders. stringifiable (read_prop ord ''id'') \<and>
             stringifiable (read_prop ord ''customerName'') \<and>
             stringifiable (read_prop ord ''productCode'')"
  then obtain rows where rows: "buildRowsForOrders shortest cols orders = Inr rows"
    using rows_succeed[OF assms] by blast
  have "userEnteredValue (rd_values (rows ! i) ! 3) =
                     Some (NumberValue (read_prop (orders ! i) ''unitsOrdered'')) \<and>
                   userEnteredValue (rd_values (rows ! i) ! 4) =
                     Some (NumberValue (read_prop (orders ! i) ''unitPrice'')) \<and>
                   userEnteredValue (rd_values (rows ! i) ! 5) =
                     Some (StringValue (read_prop (orders ! i) ''status''))"
    if i: "i < length orders" for i
  proof -
    have "Inr (rd_values (rows ! i) ! 3) = buildCell shortest (orders ! i) (COLUMNS ! 3)"
      by (rule row_cell_nth(2)[OF assms rows i]) simp
    moreover have "Inr (rd_values (rows ! i) ! 4) = buildCell shortest (orders ! i) (COLUMNS ! 4)"
      by (rule row_cell_nth(2)[OF assms rows i]) simp
    moreover have "Inr (rd_values (rows ! i) ! 5) = buildCell shortest (orders ! i) (COLUMNS ! 5)"
      by (rule row_cell_nth(2)[OF assms rows i]) simp
    ultimately show ?thesis
      by (simp add: buildCell_unitsOrdered[OF COLUMNS_nth_field(4)]
          buildCell_unitPrice[OF COLUMNS_nth_field(5)] buildCell_status[OF COLUMNS_nth_field(6)])
  qed
  with rows show "\<exists>rows. buildRowsForOrders shortest cols orders = Inr rows \<and>
                (\<forall>i < length orders.
                   userEnteredValue (rd_values (rows ! i) ! 3) =
                     Some (NumberValue (read_prop (orders ! i) ''unitsOrdered'')) \<and>
                   userEnteredValue (rd_values (rows ! i) ! 4) =
                     Some (NumberValue (read_prop (orders ! i) ''unitPrice'')) \<and>
                   userEnteredValue (rd_values (rows ! i) ! 5) =
                     Some (StringValue (read_prop (orders ! i) ''status'')))"
    by blast
next
  assume "ord k = None"
  then show "read_prop ord k = JUndefined" by (rule missing_prop)
next
  assume "ord k = None"
  then show "\<not> stringifiable (read_prop ord k)"
    by (simp add: missing_prop stringifiable_def)
next
  show "\<not> stringifiable JUndefined" by (simp add: stringifiable_def)
next
  show "\<not> stringifiable JNull" by (simp add: stringifiable_def)
qed

lemma order_without_units_props:
  "read_prop (example_order(''unitsOrdered'' := None)) ''id'' = JNum 1"
  "read_prop (example_order(''unitsOrdered'' := None)) ''customerName'' = JStr ''A''"
  "read_prop (example_order(''unitsOrdered'' := None)) ''productCode'' = JStr ''X1''"
  by (simp_all add: read_prop_def example_order_def)

theorem missing_field_behaviour_witness:
  "columns_state COLUMNS
   \<and> (example_order(''id'' := None)) ''id'' = None
   \<and> read_prop (example_order(''id'' := None)) ''id'' = JUndefined
   \<and> \<not> stringifiable (read_prop (example_order(''id'' := None)) ''id'')
   \<and> buildRowsForOrders no_fractions COLUMNS [example_order(''id'' := None)] = Inl TypeError
   \<and> read_prop (example_order(''customerName'' \<mapsto> JNull)) ''customerName'' = JNull
   \<and> \<not> stringifiable (read_prop (example_order(''customerName'' \<mapsto> JNull)) ''customerName'')
   \<and> buildRowsForOrders no_fractions COLUMNS
        [example_order, example_order(''customerName'' \<mapsto> JNull)] = Inl TypeError
   \<and> stringifiable (read_prop (example_order(''unitsOrdered'' := None)) ''id'')
   \<and> stringifiable (read_prop (example_order(''unitsOrdered'' := None)) ''customerName'')
   \<and> stringifiable (read_prop (example_order(''unitsOrdered'' := None)) ''productCode'')
   \<and> (example_order(''unitsOrdered'' := None)) ''unitsOrdered'' = None
   \<and> (\<exists>rows. buildRowsForOrders no_fractions COLUMNS [example_order(''unitsOrdered'' := None)] =
          Inr rows \<and>
        userEnteredValue (rd_values (rows ! 0) ! 3) = Some (NumberValue JUndefined))"
proof -
  note a = missing_field_behaviour[OF columns_state_COLUMNS,
      of "example_order(''id'' := None)" "[example_order(''id'' := None)]" no_fractions "''id''"]
  note b = missing_field_behaviour[OF columns_state_COLUMNS,
      of "example_order(''unitsOrdered'' := None)" "[example_order(''unitsOrdered'' := None)]"
        no_fractions "''unitsOrdered''"]
  note c = missing_field_behaviour[OF columns_state_COLUMNS,
      of "example_order(''customerName'' \<mapsto> JNull)"
        "[example_order, example_order(''customerName'' \<mapsto> JNull)]" no_fractions "''id''"]
  have s: "stringifiable (read_prop (example_order(''unitsOrdered'' := None)) ''id'')"
    "stringifiable (read_prop (example_order(''unitsOrdered'' := None)) ''customerName'')"
    "stringifiable (read_prop (example_order(''unitsOrdered'' := None)) ''productCode'')"
    by (simp_all add: order_without_units_props stringifiable_def)
  have n: "(example_order(''unitsOrdered'' := None)) ''unitsOrdered'' = None"
    "(example_order(''id'' := None)) ''id'' = None"
    by simp_all
  have nl: "read_prop (example_order(''customerName'' \<mapsto> JNull)) ''customerName'' = JNull"
    by (simp add: read_prop_def)
  from b s n(1) obtain rows where
    rows: "buildRowsForOrders no_fractions COLUMNS [example_order(''unitsOrdered'' := None)] = Inr rows"
    "userEnteredValue (rd_values (rows ! 0) ! 3) = Some (NumberValue JUndefined)"
    by auto
  from a n(2) have u: "read_prop (example_order(''id'' := None)) ''id'' = JUndefined"
    "\<not> stringifiable (read_prop (example_order(''id'' := None)) ''id'')"
    by simp_all
  with a have f1:
    "buildRowsForOrders no_fractions COLUMNS [example_order(''id'' := None)] = Inl TypeError"
    by simp
  from c nl have f2: "buildRowsForOrders no_fractions COLUMNS
        [example_order, example_order(''customerName'' \<mapsto> JNull)] = Inl TypeError"
    "\<not> stringifiable (read_prop (example_order(''customerName'' \<mapsto> JNull)) ''customerName'')"
    by simp_all
  from rows u f1 f2 nl s n columns_state_COLUMNS show ?thesis by blast
qed

section \<open>The status cell\<close>

text \<open>
  Claim C4. For every order, whatever its status, the cell built for the status column holds
  the status as read from the order in its stringValue slot (the status itself when the
  order has one), with a strict ONE_OF_LIST validation over exactly PENDING, SHIPPED,
  DELIVERED. No condition on the status decides whether the builder succeeds: whenever each
  order's id, customerName and productCode can be stringified, the rows are built and the
  cell at position 5 of each row is that cell.
\<close>

theorem status_cell_validation:
  "(field c = ''status'' \<longrightarrow>
      buildCell shortest ord c =
        Inr \<lparr>userEnteredValue = Some (StringValue (read_prop ord ''status'')),
             userEnteredFormat = None,
             dataValidation =
               Some \<lparr>dv_condition =
                       \<lparr>bc_type = ''ONE_OF_LIST'',
                        bc_values = [''PENDING'', ''SHIPPED'', ''DELIVERED'']\<rparr>,
                     dv_strict = True, dv_showCustomUi = True\<rparr>,
             pivotTable = None\<rparr>)
   \<and> (ord ''status'' = Some v \<longrightarrow> read_prop ord ''status'' = v)
   \<and> (columns_state cols \<longrightarrow>
        (\<forall>ord \<in> set orders. stringifiable (read_prop ord ''id'') \<and>
             stringifiable (read_prop ord ''customerName'') \<and>
             stringifiable (read_prop ord ''productCode'')) \<longrightarrow>
        (\<exists>rows. buildRowsForOrders shortest cols orders = Inr rows \<and>
           (\<forall>i < length orders.
              rd_values (rows ! i) ! 5 =
                \<lparr>userEnteredValue = Some (StringValue (read_prop (orders ! i) ''status'')),
                 userEnteredFormat = None,
                 dataValidation =
                   Some \<lparr>dv_condition =
                           \<lparr>bc_type = ''ONE_OF_LIST'',
                            bc_values = [''PENDING'', ''SHIPPED'', ''DELIVERED'']\<rparr>,
                         dv_strict = True, dv_showCustomUi = True\<rparr>,
                 pivotTable = None\<rparr>)))"
proof (intro conjI impI)
  assume "field c = ''status''"
  then show "buildCell shortest ord c =
        Inr \<lparr>userEnteredValue = Some (StringValue (read_prop ord ''status'')),
             userEnteredFormat = None,
             dataValidation =
               Some \<lparr>dv_condition =
                       \<lparr>bc_type = ''ONE_OF_LIST'',
                        bc_values = [''PENDING'', ''SHIPPED'', ''DELIVERED'']\<rparr>,
                     dv_strict = True, dv_showCustomUi = True\<rparr>,
             pivotTable = None\<rparr>"
    by (rule buildCell_status)
next
  assume "ord ''status'' = Some v"
  then show "read_prop ord ''status'' = v" by (simp add: read_prop_def)
next
  assume st: "columns_state cols"
    and "\<forall>ord \<in> set orders. stringifiable (read_prop ord ''id'') \<and>
             stringifiable (read_prop ord ''customerName'') \<and>
             stringifiable (read_prop ord ''productCode'')"
  then obtain rows where rows: "buildRowsForOrders shortest cols orders = Inr rows"
    using rows_succeed by blast
  have "rd_values (rows ! i) ! 5 =
                \<lparr>userEnteredValue = Some (StringValue (read_prop (orders ! i) ''status'')),
                 userEnteredFormat = None,
                 dataValidation =
                   Some \<lparr>dv_condition =
                           \<lparr>bc_type = ''ONE_OF_LIST'',
                            bc_values = [''PENDING'', ''SHIPPED'', ''DELIVERED'']\<rparr>,
                         dv_strict = True, dv_showCustomUi = True\<rparr>,
                 pivotTable = None\<rparr>"
    if i: "i < length orders" for i
  proof -
    have "Inr (rd_values (rows ! i) ! 5) = buildCell shortest (orders ! i) (COLUMNS ! 5)"
      by (rule row_cell_nth(2)[OF st rows i]) simp
    then show ?thesis by (simp add: buildCell_status[OF COLUMNS_nth_field(6)])
  qed
  with rows show "\<exists>rows. buildRowsForOrders shortest cols orders = Inr rows \<and>
           (\<forall>i < length orders.
              rd_values (rows ! i) ! 5 =
                \<lparr>userEnteredValue = Some (StringValue (read_prop (orders ! i) ''status'')),
                 userEnteredFormat = None,
                 dataValidation =
                   Some \<lparr>dv_condition =
                           \<lparr>bc_type = ''ONE_OF_LIST'',
                            bc_values = [''PENDING'', ''SHIPPED'', ''DELIVERED'']\<rparr>,
                         dv_strict = True, dv_showCustomUi = True\<rparr>,
                 pivotTable = None\<rparr>)"
    by blast
qed

lemma cancelled_order_props:
  "read_prop (example_order(''status'' \<mapsto> JStr ''CANCELLED'')) ''id'' = JNum 1"
  "read_prop (example_order(''status'' \<mapsto> JStr ''CANCELLED'')) ''customerName'' = JStr ''A''"
  "read_prop (example_order(''status'' \<mapsto> JStr ''CANCELLED'')) ''productCode'' = JStr ''X1''"
  by (simp_all add: read_prop_def example_order_def)

theorem status_cell_validation_witness:
  "field (COLUMNS ! 5) = ''status''
   \<and> (example_order(''status'' \<mapsto> JStr ''CANCELLED'')) ''status'' = Some (JStr ''CANCELLED'')
   \<and> columns_state COLUMNS
   \<and> stringifiable (read_prop (example_order(''status'' \<mapsto> JStr ''CANCELLED'')) ''id'')
   \<and> stringifiable (read_prop (example_order(''status'' \<mapsto> JStr ''CANCELLED'')) ''customerName'')
   \<and> stringifiable (read_prop (example_order(''status'' \<mapsto> JStr ''CANCELLED'')) ''productCode'')
   \<and> buildCell no_fractions (example_order(''status'' \<mapsto> JStr ''CANCELLED'')) (COLUMNS ! 5) =
        Inr \<lparr>userEnteredValue = Some (StringValue (JStr ''CANCELLED'')),
             userEnteredFormat = None,
             dataValidation =
               Some \<lparr>dv_condition =
                       \<lparr>bc_type = ''ONE_OF_LIST'',
                        bc_values = [''PENDING'', ''SHIPPED'', ''DELIVERED'']\<rparr>,
                     dv_strict = True, dv_showCustomUi = True\<rparr>,
             pivotTable = None\<rparr>
   \<and> (\<exists>rows. buildRowsForOrders no_fractions COLUMNS
                 [example_order(''status'' \<mapsto> JStr ''CANCELLED'')] = Inr rows \<and>
         rd_values (rows ! 0) ! 5 =
           \<lparr>userEnteredValue = Some (StringValue (JStr ''CANCELLED'')),
            userEnteredFormat = None,
            dataValidation =
              Some \<lparr>dv_condition =
                      \<lparr>bc_type = ''ONE_OF_LIST'',
                       bc_values = [''PENDING'', ''SHIPPED'', ''DELIVERED'']\<rparr>,
                    dv_strict = True, dv_showCustomUi = True\<rparr>,
            pivotTable = None\<rparr>)"
proof -
  note inst = status_cell_validation[of "COLUMNS ! 5" no_fractions
      "example_order(''status'' \<mapsto> JStr ''CANCELLED'')" "JStr ''CANCELLED''" COLUMNS
      "[example_order(''status'' \<mapsto> JStr ''CANCELLED'')]"]
  have s: "stringifiable (read_prop (example_order(''status'' \<mapsto> JStr ''CANCELLED'')) ''id'')"
    "stringifiable (read_prop (example_order(''status'' \<mapsto> JStr ''CANCELLED'')) ''customerName'')"
    "stringifiable (read_prop (example_order(''status'' \<mapsto> JStr ''CANCELLED'')) ''productCode'')"
    by (simp_all add: cancelled_order_props stringifiable_def)
  have v: "(example_order(''status'' \<mapsto> JStr ''CANCELLED'')) ''status'' = Some (JStr ''CANCELLED'')"
    by simp
  from inst s v columns_state_COLUMNS COLUMNS_nth_field(6) show ?thesis by auto
qed

section \<open>The pivot table request\<close>

lemma upt_1_6: "[1..<6] = [1, 2, 3, 4, 5]"
  by code_simp

lemma columns_state_cases:
  assumes "columns_state cols"
  obtains c0 c1 c2 c3 c4 c5 where "cols = [c0, c1, c2, c3, c4, c5]"
    and "field c0 = ''id''" and "field c1 = ''customerName''" and "field c2 = ''productCode''"
    and "field c3 = ''unitsOrdered''" and "field c4 = ''unitPrice''" and "field c5 = ''status''"
    and "header c0 = ''ID''" and "header c1 = ''Customer Name''"
    and "header c2 = ''Product Code''" and "header c3 = ''Units Ordered''"
    and "header c4 = ''Unit Price''" and "header c5 = ''Status''"
proof -
  from columns_state_length[OF assms] obtain c0 c1 c2 c3 c4 c5 where
    c: "cols = [c0, c1, c2, c3, c4, c5]"
    by (auto simp add: eval_nat_numeral length_Suc_conv)
  with columns_state_fields[OF assms] columns_state_headers[OF assms] that show thesis
    by simp
qed

lemma columns_state_six:
  assumes "field c0 = ''id''" and "field c1 = ''customerName''" and "field c2 = ''productCode''"
    and "field c3 = ''unitsOrdered''" and "field c4 = ''unitPrice''" and "field c5 = ''status''"
    and "header c0 = ''ID''" and "header c1 = ''Customer Name''"
    and "header c2 = ''Product Code''" and "header c3 = ''Units Ordered''"
    and "header c4 = ''Unit Price''" and "header c5 = ''Status''"
  shows "columns_state [c0, c1, c2, c3, c4, c5]"
  using assms by (simp add: columns_state_def COLUMNS_def)

lemma getColumnForField_six:
  assumes "field c0 = ''id''" and "field c1 = ''customerName''" and "field c2 = ''productCode''"
    and "field c3 = ''unitsOrdered''" and "field c4 = ''unitPrice''" and "field c5 = ''status''"
  shows "getColumnForField [c0, c1, c2, c3, c4, c5] ''productCode'' =
           Inr (c2\<lparr>index := Some 2\<rparr>, [c0, c1, c2\<lparr>index := Some 2\<rparr>, c3, c4, c5])"
    and "getColumnForField [c0, c1, c2, c3, c4, c5] ''unitsOrdered'' =
           Inr (c3\<lparr>index := Some 3\<rparr>, [c0, c1, c2, c3\<lparr>index := Some 3\<rparr>, c4, c5])"
    and "getColumnForField [c0, c1, c2, c3, c4, c5] ''unitPrice'' =
           Inr (c4\<lparr>index := Some 4\<rparr>, [c0, c1, c2, c3, c4\<lparr>index := Some 4\<rparr>, c5])"
  using assms by (simp_all add: getColumnForField_def upt_1_6 eval_nat_numeral)


lemma buildPivotTableRequest_six:
  assumes "field c0 = ''id''" and "field c1 = ''customerName''" and "field c2 = ''productCode''"
    and "field c3 = ''unitsOrdered''" and "field c4 = ''unitPrice''" and "field c5 = ''status''"
    and "header c3 = ''Units Ordered''" and "header c4 = ''Unit Price''"
  shows "buildPivotTableRequest [c0, c1, c2, c3, c4, c5] sourceSheetId targetSheetId =
     Inr (\<lparr>uc_start = \<lparr>gc_sheetId = targetSheetId, gc_rowIndex = 0, gc_columnIndex = 0\<rparr>,
           uc_rows =
             [\<lparr>rd_values =
                [\<lparr>userEnteredValue = None, userEnteredFormat = None, dataValidation = None,
                  pivotTable = Some
                    \<lparr>pt_source =
                       \<lparr>gr_sheetId = sourceSheetId, gr_startRowIndex = 0,
                        gr_startColumnIndex = 0, gr_endColumnIndex = Some 6\<rparr>,
                     pt_rows =
                       [\<lparr>pg_sourceColumnOffset = Some 2, pg_showTotals = False,
                         pg_sortOrder = ''ASCENDING''\<rparr>],
                     pt_values =
                       [\<lparr>pv_summarizeFunction = ''SUM'', pv_sourceColumnOffset = Some 3,
                         pv_name = None, pv_formula = None\<rparr>,
                        \<lparr>pv_summarizeFunction = ''SUM'', pv_sourceColumnOffset = None,
                         pv_name = Some ''Revenue'',
                         pv_formula =
                           Some (''='Units Ordered' * 'Unit Price'' @ [CHR 0x27])\<rparr>]\<rparr>\<rparr>]\<rparr>],
           uc_fields = ''*''\<rparr>,
          [c0, c1, c2\<lparr>index := Some 2\<rparr>, c3\<lparr>index := Some 3\<rparr>, c4\<lparr>index := Some 4\<rparr>, c5])"
proof -
  have 1: "getColumnForField [c0, c1, c2, c3, c4, c5] ''productCode'' =
           Inr (c2\<lparr>index := Some 2\<rparr>, [c0, c1, c2\<lparr>index := Some 2\<rparr>, c3, c4, c5])"
    using assms by (simp add: getColumnForField_six)
  have 2: "getColumnForField [c0, c1, c2\<lparr>index := Some 2\<rparr>, c3, c4, c5] ''unitsOrdered'' =
           Inr (c3\<lparr>index := Some 3\<rparr>, [c0, c1, c2\<lparr>index := Some 2\<rparr>, c3\<lparr>index := Some 3\<rparr>, c4, c5])"
    using assms by (simp add: getColumnForField_six)
  have 3: "getColumnForField [c0, c1, c2\<lparr>index := Some 2\<rparr>, c3\<lparr>index := Some 3\<rparr>, c4, c5] ''unitsOrdered'' =
           Inr (c3\<lparr>index := Some 3\<rparr>, [c0, c1, c2\<lparr>index := Some 2\<rparr>, c3\<lparr>index := Some 3\<rparr>, c4, c5])"
    using assms getColumnForField_six(2)[of c0 c1 "c2\<lparr>index := Some 2\<rparr>" "c3\<lparr>index := Some 3\<rparr>" c4 c5]
    by simp
  have 4: "getColumnForField [c0, c1, c2\<lparr>index := Some 2\<rparr>, c3\<lparr>index := Some 3\<rparr>, c4, c5] ''unitPrice'' =
           Inr (c4\<lparr>index := Some 4\<rparr>, [c0, c1, c2\<lparr>index := Some 2\<rparr>, c3\<lparr>index := Some 3\<rparr>, c4\<lparr>index := Some 4\<rparr>, c5])"
    using assms by (simp add: getColumnForField_six)
  show ?thesis
    using assms(7,8) by (simp add: buildPivotTableRequest_def 1 2 3 4)
qed

text \<open>
  Claim C5. In every state of the column table, the pivot-table request built from a data
  sheet id and a pivot sheet id is written at row 0, column 0 of the pivot sheet. Its source
  range is the data sheet from row 0, columns 0 up to 6; it groups rows by column offset 2,
  the productCode column, in ASCENDING order; it sums column offset 3, the unitsOrdered
  column; and it adds a summed column named Revenue whose formula is
  \<^verbatim>\<open>='Units Ordered' * 'Unit Price'\<close>, from the headers of the unitsOrdered and unitPrice
  columns. The column table stays in one of its states.
\<close>

theorem pivot_table_request:
  assumes "columns_state cols"
  shows "\<exists>cols'.
     buildPivotTableRequest cols dataSheetId pivotSheetId =
       Inr (\<lparr>uc_start = \<lparr>gc_sheetId = pivotSheetId, gc_rowIndex = 0, gc_columnIndex = 0\<rparr>,
             uc_rows =
               [\<lparr>rd_values =
                  [\<lparr>userEnteredValue = None, userEnteredFormat = None, dataValidation = None,
                    pivotTable = Some
                      \<lparr>pt_source =
                         \<lparr>gr_sheetId = dataSheetId, gr_startRowIndex = 0,
                          gr_startColumnIndex = 0, gr_endColumnIndex = Some 6\<rparr>,
                       pt_rows =
                         [\<lparr>pg_sourceColumnOffset = Some 2, pg_showTotals = False,
                           pg_sortOrder = ''ASCENDING''\<rparr>],
                       pt_values =
                         [\<lparr>pv_summarizeFunction = ''SUM'', pv_sourceColumnOffset = Some 3,
                           pv_name = None, pv_formula = None\<rparr>,
                          \<lparr>pv_summarizeFunction = ''SUM'', pv_sourceColumnOffset = None,
                           pv_name = Some ''Revenue'',
                           pv_formula =
                             Some (''='Units Ordered' * 'Unit Price'' @ [CHR 0x27])\<rparr>]\<rparr>\<rparr>]\<rparr>],
             uc_fields = ''*''\<rparr>,
            cols')
     \<and> columns_state cols'
     \<and> field (cols ! 2) = ''productCode''
     \<and> field (cols ! 3) = ''unitsOrdered'' \<and> header (cols ! 3) = ''Units Ordered''
     \<and> field (cols ! 4) = ''unitPrice'' \<and> header (cols ! 4) = ''Unit Price''
     \<and> length cols = 6"
proof -
  from assms obtain c0 c1 c2 c3 c4 c5 where c: "cols = [c0, c1, c2, c3, c4, c5]"
    and f: "field c0 = ''id''" "field c1 = ''customerName''" "field c2 = ''productCode''"
      "field c3 = ''unitsOrdered''" "field c4 = ''unitPrice''" "field c5 = ''status''"
    and h: "header c0 = ''ID''" "header c1 = ''Customer Name''"
      "header c2 = ''Product Code''" "header c3 = ''Units Ordered''"
      "header c4 = ''Unit Price''" "header c5 = ''Status''"
    by (rule columns_state_cases)
  have "columns_state [c0, c1, c2\<lparr>index := Some 2\<rparr>, c3\<lparr>index := Some 3\<rparr>, c4\<lparr>index := Some 4\<rparr>, c5]"
    using f h by (intro columns_state_six) simp_all
  moreover note buildPivotTableRequest_six[OF f h(4,5), of dataSheetId pivotSheetId]
  ultimately show ?thesis
    unfolding c using f h by simp
qed

theorem pivot_table_request_witness:
  "columns_state COLUMNS \<and>
   (\<exists>cols'.
     buildPivotTableRequest COLUMNS (JNum 0) (JNum 1) =
       Inr (\<lparr>uc_start = \<lparr>gc_sheetId = JNum 1, gc_rowIndex = 0, gc_columnIndex = 0\<rparr>,
             uc_rows =
               [\<lparr>rd_values =
                  [\<lparr>userEnteredValue = None, userEnteredFormat = None, dataValidation = None,
                    pivotTable = Some
                      \<lparr>pt_source =
                         \<lparr>gr_sheetId = JNum 0, gr_startRowIndex = 0,
                          gr_startColumnIndex = 0, gr_endColumnIndex = Some 6\<rparr>,
                       pt_rows =
                         [\<lparr>pg_sourceColumnOffset = Some 2, pg_showTotals = False,
                           pg_sortOrder = ''ASCENDING''\<rparr>],
                       pt_values =
                         [\<lparr>pv_summarizeFunction = ''SUM'', pv_sourceColumnOffset = Some 3,
                           pv_name = None, pv_formula = None\<rparr>,
                          \<lparr>pv_summarizeFunction = ''SUM'', pv_sourceColumnOffset = None,
                           pv_name = Some ''Revenue'',
                           pv_formula =
                             Some (''='Units Ordered' * 'Unit Price'' @ [CHR 0x27])\<rparr>]\<rparr>\<rparr>]\<rparr>],
             uc_fields = ''*''\<rparr>,
            cols')
     \<and> columns_state cols')"
  using pivot_table_request[OF columns_state_COLUMNS, of "JNum 0" "JNum 1"] columns_state_COLUMNS
  by blast

section \<open>Creating the spreadsheet\<close>

lemma createSpreadsheet_first_call:
  "\<exists>rest. fst (createSpreadsheet svc cols title) =
     Create
       \<lparr>cr_title = title,
        cr_sheets =
          [\<lparr>sp_sheetId = None, sp_title = Some ''Data'',
            sp_gridProperties =
              \<lparr>gp_rowCount = None, gp_columnCount = Some 6,
               gp_frozenRowCount = Some 1, gp_hideGridlines = None\<rparr>\<rparr>,
           \<lparr>sp_sheetId = None, sp_title = Some ''Pivot'',
            sp_gridProperties =
              \<lparr>gp_rowCount = None, gp_columnCount = None,
               gp_frozenRowCount = None, gp_hideGridlines = Some True\<rparr>\<rparr>]\<rparr> # rest"
  by (simp add: createSpreadsheet_def Let_def split: sum.splits list.splits prod.splits)

text \<open>
  Claim C8. The first call of the create operation is the create RPC with a request made of
  the title and two fixed sheets: Data with 6 columns and 1 frozen row, Pivot with
  gridlines hidden. The request is the same for any two runs with the same title, whatever
  the service answers and whatever state the column table is in.
\<close>

theorem create_request_deterministic:
  "(\<exists>rest. fst (createSpreadsheet svc cols title) =
     Create
       \<lparr>cr_title = title,
        cr_sheets =
          [\<lparr>sp_sheetId = None, sp_title = Some ''Data'',
            sp_gridProperties =
              \<lparr>gp_rowCount = None, gp_columnCount = Some 6,
               gp_frozenRowCount = Some 1, gp_hideGridlines = None\<rparr>\<rparr>,
           \<lparr>sp_sheetId = None, sp_title = Some ''Pivot'',
            sp_gridProperties =
              \<lparr>gp_rowCount = None, gp_columnCount = None,
               gp_frozenRowCount = None, gp_hideGridlines = Some True\<rparr>\<rparr>]\<rparr> # rest)
   \<and> hd (fst (createSpreadsheet svc cols title)) = hd (fst (createSpreadsheet svc' cols' title))"
proof -
  obtain r1 r2 where
    "fst (createSpreadsheet svc cols title) =
     Create
       \<lparr>cr_title = title,
        cr_sheets =
          [\<lparr>sp_sheetId = None, sp_title = Some ''Data'',
            sp_gridProperties =
              \<lparr>gp_rowCount = None, gp_columnCount = Some 6,
               gp_frozenRowCount = Some 1, gp_hideGridlines = None\<rparr>\<rparr>,
           \<lparr>sp_sheetId = None, sp_title = Some ''Pivot'',
            sp_gridProperties =
              \<lparr>gp_rowCount = None, gp_columnCount = None,
               gp_frozenRowCount = None, gp_hideGridlines = Some True\<rparr>\<rparr>]\<rparr> # r1"
    "fst (createSpreadsheet svc' cols' title) =
     Create
       \<lparr>cr_title = title,
        cr_sheets =
          [\<lparr>sp_sheetId = None, sp_title = Some ''Data'',
            sp_gridProperties =
              \<lparr>gp_rowCount = None, gp_columnCount = Some 6,
               gp_frozenRowCount = Some 1, gp_hideGridlines = None\<rparr>\<rparr>,
           \<lparr>sp_sheetId = None, sp_title = Some ''Pivot'',
            sp_gridProperties =
              \<lparr>gp_rowCount = None, gp_columnCount = None,
               gp_frozenRowCount = None, gp_hideGridlines = Some True\<rparr>\<rparr>]\<rparr> # r2"
    using createSpreadsheet_first_call[of svc cols title]
      createSpreadsheet_first_call[of svc' cols' title] by blast
  then show ?thesis by simp
qed

lemma createSpreadsheet_create_error:
  assumes "create_rpc svc
       \<lparr>cr_title = title,
        cr_sheets =
          [\<lparr>sp_sheetId = None, sp_title = Some ''Data'',
            sp_gridProperties =
              \<lparr>gp_rowCount = None, gp_columnCount = Some 6,
               gp_frozenRowCount = Some 1, gp_hideGridlines = None\<rparr>\<rparr>,
           \<lparr>sp_sheetId = None, sp_title = Some ''Pivot'',
            sp_gridProperties =
              \<lparr>gp_rowCount = None, gp_columnCount = None,
               gp_frozenRowCount = None, gp_hideGridlines = Some True\<rparr>\<rparr>]\<rparr> = Inl err"
  shows "createSpreadsheet svc cols title =
     ([Create
       \<lparr>cr_title = title,
        cr_sheets =
          [\<lparr>sp_sheetId = None, sp_title = Some ''Data'',
            sp_gridProperties =
              \<lparr>gp_rowCount = None, gp_columnCount = Some 6,
               gp_frozenRowCount = Some 1, gp_hideGridlines = None\<rparr>\<rparr>,
           \<lparr>sp_sheetId = None, sp_title = Some ''Pivot'',
            sp_gridProperties =
              \<lparr>gp_rowCount = None, gp_columnCount = None,
               gp_frozenRowCount = None, gp_hideGridlines = Some True\<rparr>\<rparr>]\<rparr>],
      Callback (Some err) None, cols)"
  using assms by (simp add: createSpreadsheet_def Let_def)

lemma buildPivotTableRequest_succeeds:
  assumes "columns_state cols"
  shows "\<exists>pivot cols'. buildPivotTableRequest cols a b = Inr (pivot, cols')"
proof -
  from assms obtain c0 c1 c2 c3 c4 c5 where c: "cols = [c0, c1, c2, c3, c4, c5]"
    and f: "field c0 = ''id''" "field c1 = ''customerName''" "field c2 = ''productCode''"
      "field c3 = ''unitsOrdered''" "field c4 = ''unitPrice''" "field c5 = ''status''"
    and h: "header c0 = ''ID''" "header c1 = ''Customer Name''"
      "header c2 = ''Product Code''" "header c3 = ''Units Ordered''"
      "header c4 = ''Unit Price''" "header c5 = ''Status''"
    by (rule columns_state_cases)
  from buildPivotTableRequest_six[OF f h(4,5), of a b] show ?thesis
    unfolding c by blast
qed

lemma createSpreadsheet_accepted:
  assumes "columns_state cols"
    and "create_rpc svc
       \<lparr>cr_title = title,
        cr_sheets =
          [\<lparr>sp_sheetId = None, sp_title = Some ''Data'',
            sp_gridProperties =
              \<lparr>gp_rowCount = None, gp_columnCount = Some 6,
               gp_frozenRowCount = Some 1, gp_hideGridlines = None\<rparr>\<rparr>,
           \<lparr>sp_sheetId = None, sp_title = Some ''Pivot'',
            sp_gridProperties =
              \<lparr>gp_rowCount = None, gp_columnCount = None,
               gp_frozenRowCount = None, gp_hideGridlines = Some True\<rparr>\<rparr>]\<rparr> = Inr ss"
    and "ss_sheets ss = s0 # s1 # others"
  shows "\<exists>request2 cols'.
     createSpreadsheet svc cols title =
       ([Create
       \<lparr>cr_title = title,
        cr_sheets =
          [\<lparr>sp_sheetId = None, sp_title = Some ''Data'',
            sp_gridProperties =
              \<lparr>gp_rowCount = None, gp_columnCount = Some 6,
               gp_frozenRowCount = Some 1, gp_hideGridlines = None\<rparr>\<rparr>,
           \<lparr>sp_sheetId = None, sp_title = Some ''Pivot'',
            sp_gridProperties =
              \<lparr>gp_rowCount = None, gp_columnCount = None,
               gp_frozenRowCount = None, gp_hideGridlines = Some True\<rparr>\<rparr>]\<rparr>,
         BatchUpdate request2],
        (case batchUpdate_rpc svc request2 of
           Some err \<Rightarrow> Callback (Some err) None
         | None \<Rightarrow> Callback None (Some ss)),
        cols')"
proof -
  obtain pivot cols' where
    "buildPivotTableRequest cols (sheetId_of s0) (sheetId_of s1) = Inr (pivot, cols')"
    using buildPivotTableRequest_succeeds[OF assms(1)] by blast
  with assms(2,3) show ?thesis
    by (simp add: createSpreadsheet_def Let_def)
qed

text \<open>
  Claim C9 as stated fails: with the empty title and a service that accepts, the operation
  issues the create RPC with the empty title, then the batch update, and hands the
  spreadsheet to its callback with no error.
\<close>

theorem empty_title_counterexample:
  "\<exists>request2 cols'.
     createSpreadsheet accepting_service COLUMNS '''' =
       ([Create
          \<lparr>cr_title = '''',
        cr_sheets =
          [\<lparr>sp_sheetId = None, sp_title = Some ''Data'',
            sp_gridProperties =
              \<lparr>gp_rowCount = None, gp_columnCount = Some 6,
               gp_frozenRowCount = Some 1, gp_hideGridlines = None\<rparr>\<rparr>,
           \<lparr>sp_sheetId = None, sp_title = Some ''Pivot'',
            sp_gridProperties =
              \<lparr>gp_rowCount = None, gp_columnCount = None,
               gp_frozenRowCount = None, gp_hideGridlines = Some True\<rparr>\<rparr>]\<rparr>,
         BatchUpdate request2],
        Callback None (Some sample_spreadsheet), cols')"
proof -
  obtain pivot cols' where
    "buildPivotTableRequest COLUMNS (JNum 0) (JNum 1) = Inr (pivot, cols')"
    using buildPivotTableRequest_succeeds[OF columns_state_COLUMNS] by blast
  then show ?thesis
    by (simp add: createSpreadsheet_def Let_def accepting_service_def sample_spreadsheet_def
        sheetId_of_def)
qed

text \<open>
  Claim C9, amended. For the empty title as for any other, the create operation checks
  nothing before the network: its first call is the create RPC with the title as given.
  When that RPC reports an error, the operation hands this error to its callback and issues
  no further call. When it answers with a spreadsheet of at least two sheets, the operation
  goes on to the batch update and hands its callback that call's error, or else the
  spreadsheet with no error.
\<close>

theorem create_sends_any_title:
  "(\<exists>rest. fst (createSpreadsheet svc cols title) =
      Create
       \<lparr>cr_title = title,
        cr_sheets =
          [\<lparr>sp_sheetId = None, sp_title = Some ''Data'',
            sp_gridProperties =
              \<lparr>gp_rowCount = None, gp_columnCount = Some 6,
               gp_frozenRowCount = Some 1, gp_hideGridlines = None\<rparr>\<rparr>,
           \<lparr>sp_sheetId = None, sp_title = Some ''Pivot'',
            sp_gridProperties =
              \<lparr>gp_rowCount = None, gp_columnCount = None,
               gp_frozenRowCount = None, gp_hideGridlines = Some True\<rparr>\<rparr>]\<rparr> # rest)
   \<and> (create_rpc svc
       \<lparr>cr_title = title,
        cr_sheets =
          [\<lparr>sp_sheetId = None, sp_title = Some ''Data'',
            sp_gridProperties =
              \<lparr>gp_rowCount = None, gp_columnCount = Some 6,
               gp_frozenRowCount = Some 1, gp_hideGridlines = None\<rparr>\<rparr>,
           \<lparr>sp_sheetId = None, sp_title = Some ''Pivot'',
            sp_gridProperties =
              \<lparr>gp_rowCount = None, gp_columnCount = None,
               gp_frozenRowCount = None, gp_hideGridlines = Some True\<rparr>\<rparr>]\<rparr> = Inl err \<longrightarrow>
      createSpreadsheet svc cols title =
        ([Create
       \<lparr>cr_title = title,
        cr_sheets =
          [\<lparr>sp_sheetId = None, sp_title = Some ''Data'',
            sp_gridProperties =
              \<lparr>gp_rowCount = None, gp_columnCount = Some 6,
               gp_frozenRowCount = Some 1, gp_hideGridlines = None\<rparr>\<rparr>,
           \<lparr>sp_sheetId = None, sp_title = Some ''Pivot'',
            sp_gridProperties =
              \<lparr>gp_rowCount = None, gp_columnCount = None,
               gp_frozenRowCount = None, gp_hideGridlines = Some True\<rparr>\<rparr>]\<rparr>],
         Callback (Some err) None, cols))
   \<and> (columns_state cols \<longrightarrow>
      create_rpc svc
       \<lparr>cr_title = title,
        cr_sheets =
          [\<lparr>sp_sheetId = None, sp_title = Some ''Data'',
            sp_gridProperties =
              \<lparr>gp_rowCount = None, gp_columnCount = Some 6,
               gp_frozenRowCount = Some 1, gp_hideGridlines = None\<rparr>\<rparr>,
           \<lparr>sp_sheetId = None, sp_title = Some ''Pivot'',
            sp_gridProperties =
              \<lparr>gp_rowCount = None, gp_columnCount = None,
               gp_frozenRowCount = None, gp_hideGridlines = Some True\<rparr>\<rparr>]\<rparr> = Inr ss \<longrightarrow>
      ss_sheets ss = s0 # s1 # others \<longrightarrow>
      (\<exists>request2 cols'.
         createSpreadsheet svc cols title =
           ([Create
       \<lparr>cr_title = title,
        cr_sheets =
          [\<lparr>sp_sheetId = None, sp_title = Some ''Data'',
            sp_gridProperties =
              \<lparr>gp_rowCount = None, gp_columnCount = Some 6,
               gp_frozenRowCount = Some 1, gp_hideGridlines = None\<rparr>\<rparr>,
           \<lparr>sp_sheetId = None, sp_title = Some ''Pivot'',
            sp_gridProperties =
              \<lparr>gp_rowCount = None, gp_columnCount = None,
               gp_frozenRowCount = None, gp_hideGridlines = Some True\<rparr>\<rparr>]\<rparr>,
             BatchUpdate request2],
            (case batchUpdate_rpc svc request2 of
               Some err \<Rightarrow> Callback (Some err) None
             | None \<Rightarrow> Callback None (Some ss)),
            cols')))"
  using createSpreadsheet_first_call[of svc cols title]
    createSpreadsheet_create_error[of svc title err cols]
    createSpreadsheet_accepted[of cols svc title ss s0 s1 others]
  by blast

theorem create_sends_any_title_witness:
  "create_rpc offline_service
       \<lparr>cr_title = '''',
        cr_sheets =
          [\<lparr>sp_sheetId = None, sp_title = Some ''Data'',
            sp_gridProperties =
              \<lparr>gp_rowCount = None, gp_columnCount = Some 6,
               gp_frozenRowCount = Some 1, gp_hideGridlines = None\<rparr>\<rparr>,
           \<lparr>sp_sheetId = None, sp_title = Some ''Pivot'',
            sp_gridProperties =
              \<lparr>gp_rowCount = None, gp_columnCount = None,
               gp_frozenRowCount = None, gp_hideGridlines = Some True\<rparr>\<rparr>]\<rparr> = Inl (ServiceError ''offline'')
   \<and> createSpreadsheet offline_service COLUMNS '''' =
        ([Create
       \<lparr>cr_title = '''',
        cr_sheets =
          [\<lparr>sp_sheetId = None, sp_title = Some ''Data'',
            sp_gridProperties =
              \<lparr>gp_rowCount = None, gp_columnCount = Some 6,
               gp_frozenRowCount = Some 1, gp_hideGridlines = None\<rparr>\<rparr>,
           \<lparr>sp_sheetId = None, sp_title = Some ''Pivot'',
            sp_gridProperties =
              \<lparr>gp_rowCount = None, gp_columnCount = None,
               gp_frozenRowCount = None, gp_hideGridlines = Some True\<rparr>\<rparr>]\<rparr>],
         Callback (Some (ServiceError ''offline'')) None, COLUMNS)
   \<and> columns_state COLUMNS
   \<and> create_rpc accepting_service
       \<lparr>cr_title = '''',
        cr_sheets =
          [\<lparr>sp_sheetId = None, sp_title = Some ''Data'',
            sp_gridProperties =
              \<lparr>gp_rowCount = None, gp_columnCount = Some 6,
               gp_frozenRowCount = Some 1, gp_hideGridlines = None\<rparr>\<rparr>,
           \<lparr>sp_sheetId = None, sp_title = Some ''Pivot'',
            sp_gridProperties =
              \<lparr>gp_rowCount = None, gp_columnCount = None,
               gp_frozenRowCount = None, gp_hideGridlines = Some True\<rparr>\<rparr>]\<rparr> = Inr sample_spreadsheet
   \<and> (\<exists>s0 s1. ss_sheets sample_spreadsheet = s0 # s1 # [])
   \<and> (\<exists>request2 cols'.
         createSpreadsheet accepting_service COLUMNS '''' =
           ([Create
       \<lparr>cr_title = '''',
        cr_sheets =
          [\<lparr>sp_sheetId = None, sp_title = Some ''Data'',
            sp_gridProperties =
              \<lparr>gp_rowCount = None, gp_columnCount = Some 6,
               gp_frozenRowCount = Some 1, gp_hideGridlines = None\<rparr>\<rparr>,
           \<lparr>sp_sheetId = None, sp_title = Some ''Pivot'',
            sp_gridProperties =
              \<lparr>gp_rowCount = None, gp_columnCount = None,
               gp_frozenRowCount = None, gp_hideGridlines = Some True\<rparr>\<rparr>]\<rparr>,
             BatchUpdate request2],
            Callback None (Some sample_spreadsheet), cols'))"
proof -
  have r: "create_rpc offline_service
       \<lparr>cr_title = '''',
        cr_sheets =
          [\<lparr>sp_sheetId = None, sp_title = Some ''Data'',
            sp_gridProperties =
              \<lparr>gp_rowCount = None, gp_columnCount = Some 6,
               gp_frozenRowCount = Some 1, gp_hideGridlines = None\<rparr>\<rparr>,
           \<lparr>sp_sheetId = None, sp_title = Some ''Pivot'',
            sp_gridProperties =
              \<lparr>gp_rowCount = None, gp_columnCount = None,
               gp_frozenRowCount = None, gp_hideGridlines = Some True\<rparr>\<rparr>]\<rparr> = Inl (ServiceError ''offline'')"
    by (simp add: offline_service_def)
  have a: "create_rpc accepting_service
       \<lparr>cr_title = '''',
        cr_sheets =
          [\<lparr>sp_sheetId = None, sp_title = Some ''Data'',
            sp_gridProperties =
              \<lparr>gp_rowCount = None, gp_columnCount = Some 6,
               gp_frozenRowCount = Some 1, gp_hideGridlines = None\<rparr>\<rparr>,
           \<lparr>sp_sheetId = None, sp_title = Some ''Pivot'',
            sp_gridProperties =
              \<lparr>gp_rowCount = None, gp_columnCount = None,
               gp_frozenRowCount = None, gp_hideGridlines = Some True\<rparr>\<rparr>]\<rparr> = Inr sample_spreadsheet"
    by (simp add: accepting_service_def)
  obtain s0 s1 where s: "ss_sheets sample_spreadsheet = s0 # s1 # []"
    by (simp add: sample_spreadsheet_def)
  have b: "batchUpdate_rpc accepting_service request = None" for request
    by (simp add: accepting_service_def)
  note i1 = create_sends_any_title[of offline_service COLUMNS "''''" "ServiceError ''offline''"]
  note i2 = create_sends_any_title[of accepting_service COLUMNS "''''" _ sample_spreadsheet s0 s1 "[]"]
  from i1 r have c: "createSpreadsheet offline_service COLUMNS '''' =
        ([Create
       \<lparr>cr_title = '''',
        cr_sheets =
          [\<lparr>sp_sheetId = None, sp_title = Some ''Data'',
            sp_gridProperties =
              \<lparr>gp_rowCount = None, gp_columnCount = Some 6,
               gp_frozenRowCount = Some 1, gp_hideGridlines = None\<rparr>\<rparr>,
           \<lparr>sp_sheetId = None, sp_title = Some ''Pivot'',
            sp_gridProperties =
              \<lparr>gp_rowCount = None, gp_columnCount = None,
               gp_frozenRowCount = None, gp_hideGridlines = Some True\<rparr>\<rparr>]\<rparr>],
         Callback (Some (ServiceError ''offline'')) None, COLUMNS)"
    by blast
  from i2 a s columns_state_COLUMNS obtain request2 cols' where
    "createSpreadsheet accepting_service COLUMNS '''' =
           ([Create
       \<lparr>cr_title = '''',
        cr_sheets =
          [\<lparr>sp_sheetId = None, sp_title = Some ''Data'',
            sp_gridProperties =
              \<lparr>gp_rowCount = None, gp_columnCount = Some 6,
               gp_frozenRowCount = Some 1, gp_hideGridlines = None\<rparr>\<rparr>,
           \<lparr>sp_sheetId = None, sp_title = Some ''Pivot'',
            sp_gridProperties =
              \<lparr>gp_rowCount = None, gp_columnCount = None,
               gp_frozenRowCount = None, gp_hideGridlines = Some True\<rparr>\<rparr>]\<rparr>,
             BatchUpdate request2],
            (case batchUpdate_rpc accepting_service request2 of
               Some err \<Rightarrow> Callback (Some err) None
             | None \<Rightarrow> Callback None (Some sample_spreadsheet)),
            cols')"
    by blast
  then have "\<exists>request2 cols'.
         createSpreadsheet accepting_service COLUMNS '''' =
           ([Create
       \<lparr>cr_title = '''',
        cr_sheets =
          [\<lparr>sp_sheetId = None, sp_title = Some ''Data'',
            sp_gridProperties =
              \<lparr>gp_rowCount = None, gp_columnCount = Some 6,
               gp_frozenRowCount = Some 1, gp_hideGridlines = None\<rparr>\<rparr>,
           \<lparr>sp_sheetId = None, sp_title = Some ''Pivot'',
            sp_gridProperties =
              \<lparr>gp_rowCount = None, gp_columnCount = None,
               gp_frozenRowCount = None, gp_hideGridlines = Some True\<rparr>\<rparr>]\<rparr>,
             BatchUpdate request2],
            Callback None (Some sample_spreadsheet), cols')"
    by (simp add: b)
  with r a s c columns_state_COLUMNS show ?thesis by blast
qed

end
